theory Spec2Isabelle
  imports Complex_Main "HOL-Library.Sublist" "HOL-Library.Multiset"
    "HOL-Library.List_Lexorder" "HOL-Library.Char_ord"
begin

section \<open>Availability engine (appointmentService.getAvailableSlots)\<close>

text \<open>
  Rows of the tables \<open>professionals\<close> and \<open>appointments\<close>, with the columns that
  the queries filter on or select. The status column is the closed set of labels the
  search schema of the appointment service enumerates, plus \<open>in_progress\<close>.
\<close>

datatype appt_status =
  scheduled | confirmed | cancelled | completed | pending | no_show | in_progress

record professional_row =
  prof_id :: string
  prof_name :: string
  prof_establishment_id :: string
  prof_active :: bool

record appointment_row =
  appt_id :: string
  appt_professional_id :: string
  appt_client_id :: string
  appt_service_id :: string
  appt_date :: string
  appt_time :: string
  appt_status :: appt_status

record AvailableSlot =
  slot_date :: string
  slot_time :: string
  slot_professional_id :: string
  slot_professional_name :: string

text \<open>
  The persistence collaborator: the two tables, and whether each of the two selects of
  \<open>getAvailableSlots\<close> comes back with an error (\<open>profError\<close>, \<open>apptError\<close>).
\<close>

record slots_db =
  professionals :: "professional_row list"
  appointments :: "appointment_row list"
  profError :: bool
  apptError :: bool

text \<open>\<open>Number.prototype.toString()\<close> on a non-negative integer, and \<open>padStart(2, '0')\<close>.\<close>

definition digit_char :: "nat \<Rightarrow> char" where
  "digit_char d = char_of (48 + d)"

fun nat_toString :: "nat \<Rightarrow> string" where
  "nat_toString n =
     (if n < 10 then [digit_char n]
      else nat_toString (n div 10) @ [digit_char (n mod 10)])"

declare nat_toString.simps [simp del]

definition padStart2 :: "string \<Rightarrow> string" where
  "padStart2 s = replicate (2 - length s) (CHR ''0'') @ s"

definition timeSlot :: "nat \<Rightarrow> nat \<Rightarrow> string" where
  "timeSlot hour minute =
     padStart2 (nat_toString hour) @ '':'' @ padStart2 (nat_toString minute) @ '':00''"

definition startHour :: nat where "startHour = 8"
definition endHour :: nat where "endHour = 18"

text \<open>The grid of one professional: \<open>for hour in [8, 18)\<close>, \<open>for minute of [0, 30]\<close>.\<close>

definition slot_grid :: "string list" where
  "slot_grid = concat (map (\<lambda>hour. map (timeSlot hour) [0, 30]) [startHour ..< endHour])"

text \<open>
  \<open>date || format(new Date(), 'yyyy-MM-dd')\<close>: an absent or empty date is today's;
  \<open>if (professionalId)\<close>: an absent or empty id does not filter.
\<close>

definition targetDate :: "string \<Rightarrow> string option \<Rightarrow> string" where
  "targetDate today date =
     (case date of None \<Rightarrow> today | Some d \<Rightarrow> if d = [] then today else d)"

definition professionalsQuery ::
  "slots_db \<Rightarrow> string \<Rightarrow> string option \<Rightarrow> professional_row list" where
  "professionalsQuery db establishmentId professionalId =
     filter (\<lambda>p. prof_establishment_id p = establishmentId \<and> prof_active p
                \<and> (case professionalId of
                      None \<Rightarrow> True
                    | Some i \<Rightarrow> i = [] \<or> prof_id p = i))
            (professionals db)"

definition existingAppointments :: "slots_db \<Rightarrow> string \<Rightarrow> appointment_row list" where
  "existingAppointments db d =
     filter (\<lambda>a. appt_date a = d \<and> (appt_status a = scheduled \<or> appt_status a = confirmed))
            (appointments db)"

definition isOccupied :: "appointment_row list \<Rightarrow> professional_row \<Rightarrow> string \<Rightarrow> bool" where
  "isOccupied existing professional t =
     list_ex (\<lambda>apt. appt_professional_id apt = prof_id professional \<and> appt_time apt = t) existing"

definition slotsOf :: "appointment_row list \<Rightarrow> string \<Rightarrow> professional_row \<Rightarrow> AvailableSlot list" where
  "slotsOf existing d professional =
     concat (map (\<lambda>hour.
       concat (map (\<lambda>minute.
         if isOccupied existing professional (timeSlot hour minute) then []
         else [\<lparr> slot_date = d, slot_time = timeSlot hour minute,
                 slot_professional_id = prof_id professional,
                 slot_professional_name = prof_name professional \<rparr>])
         [0, 30]))
       [startHour ..< endHour])"

definition getAvailableSlots ::
  "slots_db \<Rightarrow> string \<Rightarrow> string \<Rightarrow> string option \<Rightarrow> string option \<Rightarrow> AvailableSlot list" where
  "getAvailableSlots db today establishmentId date professionalId =
     (if profError db then []
      else if apptError db then []
      else concat (map (slotsOf (existingAppointments db (targetDate today date))
                                (targetDate today date))
                       (professionalsQuery db establishmentId professionalId)))"

text \<open>An appointment that blocks a slot: same professional, date and time, still booked.\<close>

definition coincides :: "appointment_row \<Rightarrow> AvailableSlot \<Rightarrow> bool" where
  "coincides a s =
     (appt_professional_id a = slot_professional_id s \<and> appt_date a = slot_date s
      \<and> appt_time a = slot_time s
      \<and> (appt_status a = scheduled \<or> appt_status a = confirmed))"

definition example_slots_db :: slots_db where
  "example_slots_db =
     \<lparr> professionals =
         [\<lparr> prof_id = ''p1'', prof_name = ''Ana'', prof_establishment_id = ''e1'',
            prof_active = True \<rparr>],
       appointments =
         [\<lparr> appt_id = ''a1'', appt_professional_id = ''p1'', appt_client_id = ''c1'',
            appt_service_id = ''s1'', appt_date = ''2024-05-02'', appt_time = ''08:00:00'',
            appt_status = confirmed \<rparr>,
          \<lparr> appt_id = ''a2'', appt_professional_id = ''p1'', appt_client_id = ''c1'',
            appt_service_id = ''s1'', appt_date = ''2024-05-02'', appt_time = ''08:30:00'',
            appt_status = cancelled \<rparr>],
       profError = False, apptError = False \<rparr>"

section \<open>JavaScript values\<close>

text \<open>
  The conversation context is a free-form record (\<open>Record<string, any>\<close>), the
  patches of \<open>updateContext\<close> carry an index signature \<open>[key: string]: any\<close>, and the
  flow handlers receive their context as \<open>any\<close>. These values are modelled as JSON
  values with \<open>undefined\<close>; an object is its list of members in insertion order.
  Numbers are the integers (all counters here are far below \<open>2^53\<close>).
\<close>

datatype jsval =
  JUndefined | JNull | JBool bool | JNum int | JStr string
  | JArr "jsval list" | JObj "(string \<times> jsval) list"

type_synonym jsobj = "(string \<times> jsval) list"

text \<open>Property read \<open>o[k]\<close> (\<open>undefined\<close> when absent) and assignment \<open>o[k] = v\<close>.\<close>

fun obj_get :: "jsobj \<Rightarrow> string \<Rightarrow> jsval" where
  "obj_get [] k = JUndefined"
| "obj_get ((k', v) # rest) k = (if k' = k then v else obj_get rest k)"

fun obj_set :: "jsobj \<Rightarrow> string \<Rightarrow> jsval \<Rightarrow> jsobj" where
  "obj_set [] k v = [(k, v)]"
| "obj_set ((k', v') # rest) k v =
     (if k' = k then (k, v) # rest else (k', v') # obj_set rest k v)"

text \<open>\<open>ToBoolean\<close>.\<close>

fun truthy :: "jsval \<Rightarrow> bool" where
  "truthy JUndefined = False"
| "truthy JNull = False"
| "truthy (JBool b) = b"
| "truthy (JNum n) = (n \<noteq> 0)"
| "truthy (JStr s) = (s \<noteq> [])"
| "truthy (JArr xs) = True"
| "truthy (JObj kvs) = True"

definition int_toString :: "int \<Rightarrow> string" where
  "int_toString i = (if i < 0 then ''-'' @ nat_toString (nat (- i)) else nat_toString (nat i))"

fun join_comma :: "string list \<Rightarrow> string" where
  "join_comma [] = []"
| "join_comma [s] = s"
| "join_comma (s # t # rest) = s @ '','' @ join_comma (t # rest)"

text \<open>
  \<open>ToString\<close>: an array joins its elements with commas, \<open>null\<close> and \<open>undefined\<close>
  elements printing as the empty string; a plain object prints as \<open>[object Object]\<close>.
\<close>

primrec js_toString :: "jsval \<Rightarrow> string" where
  "js_toString JUndefined = ''undefined''"
| "js_toString JNull = ''null''"
| "js_toString (JBool b) = (if b then ''true'' else ''false'')"
| "js_toString (JNum n) = int_toString n"
| "js_toString (JStr s) = s"
| "js_toString (JArr xs) =
     join_comma (map (\<lambda>(x, s). if x = JUndefined \<or> x = JNull then [] else s)
                     (zip xs (map js_toString xs)))"
| "js_toString (JObj kvs) = ''[object Object]''"

text \<open>Object spread \<open>{ ...v }\<close>: own enumerable members; index keys for arrays and strings.\<close>

fun spread :: "jsval \<Rightarrow> jsobj" where
  "spread (JObj kvs) = kvs"
| "spread (JArr xs) = zip (map nat_toString [0 ..< length xs]) xs"
| "spread (JStr s) = zip (map nat_toString [0 ..< length s]) (map (\<lambda>c. JStr [c]) s)"
| "spread v = []"

section \<open>Conversation context store (contextService)\<close>

text \<open>
  The table \<open>conversation_contexts\<close>, one row per (establishment id, client phone); a
  row is the object of its columns. \<open>db_outcome\<close> says which persistence calls of one
  operation come back with an error.
\<close>

type_synonym context_table = "(string \<times> string) \<Rightarrow> jsobj option"

record db_outcome =
  select_error :: bool
  insert_error :: bool
  update_error :: bool

definition db_ok :: db_outcome where
  "db_ok = \<lparr> select_error = False, insert_error = False, update_error = False \<rparr>"

text \<open>\<open>createConversationContext\<close>; \<open>uuid\<close> and \<open>now\<close> are \<open>uuidv4()\<close> and the clock.\<close>

definition newContext :: "string \<Rightarrow> string \<Rightarrow> string option \<Rightarrow> string \<Rightarrow> string \<Rightarrow> jsobj" where
  "newContext establishmentId clientPhone clientName uuid now =
     [(''id'', JStr uuid),
      (''establishment_id'', JStr establishmentId),
      (''client_phone'', JStr clientPhone),
      (''client_name'', (case clientName of
                           None \<Rightarrow> JNull
                         | Some n \<Rightarrow> if n = [] then JNull else JStr n)),
      (''context_data'', JObj
         [(''messageCount'', JNum 0),
          (''firstInteraction'', JStr now),
          (''preferences'', JObj []),
          (''appointmentHistory'', JArr []),
          (''lastTopics'', JArr [])]),
      (''last_interaction'', JStr now),
      (''conversation_state'', JStr ''active''),
      (''intent'', JStr ''greeting''),
      (''sentiment'', JStr ''neutral'')]"

definition createConversationContext ::
  "db_outcome \<Rightarrow> context_table \<Rightarrow> string \<Rightarrow> string \<Rightarrow> string option \<Rightarrow> string \<Rightarrow> string
   \<Rightarrow> jsobj option \<times> context_table" where
  "createConversationContext env tbl establishmentId clientPhone clientName uuid now =
     (if insert_error env then (None, tbl)
      else (Some (newContext establishmentId clientPhone clientName uuid now),
            tbl((establishmentId, clientPhone) \<mapsto>
                  newContext establishmentId clientPhone clientName uuid now)))"

text \<open>\<open>getConversationContext\<close> (alias \<open>getOrCreateContext\<close>): creates the row when none exists.\<close>

definition getConversationContext ::
  "db_outcome \<Rightarrow> context_table \<Rightarrow> string \<Rightarrow> string \<Rightarrow> string \<Rightarrow> string
   \<Rightarrow> jsobj option \<times> context_table" where
  "getConversationContext env tbl establishmentId clientPhone uuid now =
     (if select_error env then (None, tbl)
      else case tbl (establishmentId, clientPhone) of
             Some row \<Rightarrow> (Some row, tbl)
           | None \<Rightarrow> createConversationContext env tbl establishmentId clientPhone None uuid now)"

text \<open>\<open>(contextData.messageCount || 0) + 1\<close>, with the coercions of \<open>||\<close> and \<open>+\<close>.\<close>

fun incrementCount :: "jsval \<Rightarrow> jsval" where
  "incrementCount (JNum n) = JNum (n + 1)"
| "incrementCount (JBool b) = (if b then JNum 2 else JNum 1)"
| "incrementCount (JStr s) = (if s = [] then JNum 1 else JStr (s @ ''1''))"
| "incrementCount (JArr xs) = JStr (js_toString (JArr xs) @ ''1'')"
| "incrementCount (JObj kvs) = JStr (js_toString (JObj kvs) @ ''1'')"
| "incrementCount v = JNum 1"

definition topicEntry :: "jsobj \<Rightarrow> string \<Rightarrow> jsval" where
  "topicEntry updates now =
     JObj [(''message'', obj_get updates ''lastMessage''),
           (''response'', obj_get updates ''lastResponse''),
           (''timestamp'', JStr now),
           (''intent'', obj_get updates ''intent'')]"

text \<open>\<open>xs.slice(-10)\<close>.\<close>

definition slice_last10 :: "'a list \<Rightarrow> 'a list" where
  "slice_last10 xs = drop (length xs - 10) xs"

text \<open>
  The history block of \<open>updateConversationContext\<close>. \<open>None\<close> is the \<open>TypeError\<close> of
  calling \<open>push\<close> on a truthy value that is not an array.
\<close>

definition pushTopic :: "jsobj \<Rightarrow> jsobj \<Rightarrow> string \<Rightarrow> jsobj option" where
  "pushTopic contextData updates now =
     (case (if truthy (obj_get contextData ''lastTopics'')
            then obj_get contextData ''lastTopics'' else JArr []) of
        JArr topics \<Rightarrow>
          Some (obj_set contextData ''lastTopics''
                  (JArr (if length (topics @ [topicEntry updates now]) > 10
                         then slice_last10 (topics @ [topicEntry updates now])
                         else topics @ [topicEntry updates now])))
      | _ \<Rightarrow> None)"

definition reserved_keys :: "string list" where
  "reserved_keys =
     [''lastMessage'', ''lastResponse'', ''intent'', ''sentiment'', ''conversation_state'',
      ''client_name'']"

text \<open>\<open>Object.keys(updates).forEach(key => ...)\<close>: every other key is copied verbatim.\<close>

definition mergeOtherKeys :: "jsobj \<Rightarrow> jsobj \<Rightarrow> jsobj" where
  "mergeOtherKeys contextData updates =
     foldl (\<lambda>cd key. if key \<in> set reserved_keys then cd
                      else obj_set cd key (obj_get updates key))
           contextData (map fst updates)"

definition prepareContextData :: "jsval \<Rightarrow> jsobj \<Rightarrow> string \<Rightarrow> jsobj option" where
  "prepareContextData stored updates now =
     (let counted = obj_set (spread stored) ''messageCount''
                      (incrementCount (obj_get (spread stored) ''messageCount''));
          stamped = obj_set counted ''lastInteraction'' (JStr now)
      in case (if truthy (obj_get updates ''lastMessage'')
               then pushTopic stamped updates now else Some stamped) of
           None \<Rightarrow> None
         | Some contextData \<Rightarrow> Some (mergeOtherKeys contextData updates))"

text \<open>\<open>if (updates.k) updateData.k = updates.k\<close>.\<close>

definition setIfTruthy :: "jsobj \<Rightarrow> string \<Rightarrow> jsobj \<Rightarrow> jsobj" where
  "setIfTruthy updates k updateData =
     (if truthy (obj_get updates k) then obj_set updateData k (obj_get updates k)
      else updateData)"

definition updateData :: "jsobj \<Rightarrow> jsobj \<Rightarrow> string \<Rightarrow> jsobj" where
  "updateData contextData updates now =
     setIfTruthy updates ''conversation_state''
       (setIfTruthy updates ''sentiment''
         (setIfTruthy updates ''intent''
           (setIfTruthy updates ''client_name''
             [(''context_data'', JObj contextData),
              (''last_interaction'', JStr now),
              (''updated_at'', JStr now)])))"

text \<open>The SQL update of one row: the given columns are overwritten.\<close>

definition applyColumns :: "jsobj \<Rightarrow> jsobj \<Rightarrow> jsobj" where
  "applyColumns row cols = foldl (\<lambda>r (k, v). obj_set r k v) row cols"

text \<open>
  \<open>updateConversationContext\<close> (alias \<open>updateContext\<close>): the boolean it returns and the
  table afterwards.
\<close>

definition updateConversationContext ::
  "db_outcome \<Rightarrow> context_table \<Rightarrow> string \<Rightarrow> string \<Rightarrow> jsobj \<Rightarrow> string \<Rightarrow> string
   \<Rightarrow> bool \<times> context_table" where
  "updateConversationContext env tbl establishmentId clientPhone updates uuid now =
     (case getConversationContext env tbl establishmentId clientPhone uuid now of
        (None, tbl1) \<Rightarrow> (False, tbl1)
      | (Some currentContext, tbl1) \<Rightarrow>
          (case prepareContextData (obj_get currentContext ''context_data'') updates now of
             None \<Rightarrow> (False, tbl1)
           | Some contextData \<Rightarrow>
               if update_error env then (False, tbl1)
               else (True,
                     tbl1((establishmentId, clientPhone) \<mapsto>
                       applyColumns currentContext (updateData contextData updates now)))))"

text \<open>The row an update call works on: the stored one, or the one it creates.\<close>

definition currentRow :: "context_table \<Rightarrow> string \<Rightarrow> string \<Rightarrow> string \<Rightarrow> string \<Rightarrow> jsobj" where
  "currentRow tbl e p uuid now =
     (case tbl (e, p) of Some row \<Rightarrow> row | None \<Rightarrow> newContext e p None uuid now)"

text \<open>Readers of the stored context, and a run of update calls on one key.\<close>

definition contextData_of :: "context_table \<Rightarrow> string \<times> string \<Rightarrow> jsobj" where
  "contextData_of tbl key =
     (case tbl key of None \<Rightarrow> [] | Some row \<Rightarrow> spread (obj_get row ''context_data''))"











text \<open>No stored row shows a pending choice among its own columns.\<close>

definition rowsHideChoice :: "context_table \<Rightarrow> bool" where
  "rowsHideChoice tbl =
     (\<forall>key row. tbl key = Some row \<longrightarrow> obj_get row ''awaitingCancellation'' = JUndefined)"

section \<open>Intent classifier (intentService)\<close>

datatype IntentType =
  greeting | scheduling | reschedule | cancel | services_info | prices_info
  | availability | confirmation | complaint | compliment | farewell | help_intent | other

text \<open>
  Message texts are byte strings in UTF-8; the accented letters of the keyword table are
  written by their two bytes. \<open>String.prototype.includes\<close> is the search for a
  contiguous substring, which on well-formed UTF-8 finds the same occurrences as on the
  code units of the source strings.
\<close>

definition a_acute :: string where "a_acute = [CHR 0xC3, CHR 0xA1]"
definition a_tilde :: string where "a_tilde = [CHR 0xC3, CHR 0xA3]"
definition c_cedilla :: string where "c_cedilla = [CHR 0xC3, CHR 0xA7]"
definition e_acute :: string where "e_acute = [CHR 0xC3, CHR 0xA9]"
definition e_circumflex :: string where "e_circumflex = [CHR 0xC3, CHR 0xAA]"
definition i_acute :: string where "i_acute = [CHR 0xC3, CHR 0xAD]"
definition o_acute :: string where "o_acute = [CHR 0xC3, CHR 0xB3]"
definition o_circumflex :: string where "o_circumflex = [CHR 0xC3, CHR 0xB4]"
definition u_acute :: string where "u_acute = [CHR 0xC3, CHR 0xBA]"

fun js_includes :: "string \<Rightarrow> string \<Rightarrow> bool" where
  "js_includes [] k = (k = [])"
| "js_includes (c # cs) k = (prefix k (c # cs) \<or> js_includes cs k)"

definition greeting_keywords :: "string list" where
  "greeting_keywords =
     [''oi'', ''ol'' @ a_acute, ''bom dia'', ''boa tarde'', ''boa noite'', ''hey'',
      ''e a'' @ i_acute, ''tudo bem'', ''como vai'', ''alo'', ''al'' @ o_circumflex]"

definition scheduling_keywords :: "string list" where
  "scheduling_keywords =
     [''agendar'', ''marcar'', ''hor'' @ a_acute @ ''rio'', ''consulta'', ''agendamento'',
      ''dispon'' @ i_acute @ ''vel'', ''livre'', ''vaga'', ''quando'', ''que horas'',
      ''que dia'', ''pr'' @ o_acute @ ''ximo'', ''semana'', ''m'' @ e_circumflex @ ''s'',
      ''amanh'' @ a_tilde, ''hoje'']"

definition reschedule_keywords :: "string list" where
  "reschedule_keywords =
     [''remarcar'', ''mudar'', ''alterar'', ''trocar'', ''transferir'', ''adiar'',
      ''outro dia'', ''outro hor'' @ a_acute @ ''rio'', ''reagendar'']"

definition cancel_keywords :: "string list" where
  "cancel_keywords =
     [''cancelar'', ''desmarcar'', ''n'' @ a_tilde @ ''o vou'', ''n'' @ a_tilde @ ''o posso'',
      ''n'' @ a_tilde @ ''o conseguir'', ''imprevisto'', ''emerg'' @ e_circumflex @ ''ncia'']"

definition services_info_keywords :: "string list" where
  "services_info_keywords =
     [''servi'' @ c_cedilla @ ''os'', ''procedimentos'', ''tratamentos'', ''o que fazem'',
      ''que tipo'', ''especialidades'', ''corte'', ''escova'', ''manicure'', ''pedicure'',
      ''sobrancelha'', ''depila'' @ c_cedilla @ a_tilde @ ''o'', ''massagem'']"

definition prices_info_keywords :: "string list" where
  "prices_info_keywords =
     [''pre'' @ c_cedilla @ ''o'', ''valor'', ''quanto custa'', ''tabela'', ''valores'',
      ''or'' @ c_cedilla @ ''amento'', ''barato'', ''caro'',
      ''promo'' @ c_cedilla @ a_tilde @ ''o'', ''desconto'']"

definition availability_keywords :: "string list" where
  "availability_keywords =
     [''aberto'', ''funcionando'', ''hor'' @ a_acute @ ''rio de funcionamento'',
      ''que horas abre'', ''que horas fecha'', ''domingo'', ''feriado'', ''disponibilidade'']"

definition confirmation_keywords :: "string list" where
  "confirmation_keywords =
     [''confirmar'', ''confirma'' @ c_cedilla @ a_tilde @ ''o'', ''ok'', ''certo'', ''sim'',
      ''perfeito'', ''combinado'', ''fechado'', ''beleza'']"

definition complaint_keywords :: "string list" where
  "complaint_keywords =
     [''reclama'' @ c_cedilla @ a_tilde @ ''o'', ''problema'', ''ruim'',
      ''p'' @ e_acute @ ''ssimo'', ''horr'' @ i_acute @ ''vel'', ''insatisfeito'',
      ''decepcionado'', ''erro'', ''demora'', ''atraso'']"

definition compliment_keywords :: "string list" where
  "compliment_keywords =
     [''parab'' @ e_acute @ ''ns'', ''excelente'', o_acute @ ''timo'', ''maravilhoso'',
      ''perfeito'', ''adorei'', ''amei'', ''muito bom'', ''recomendo'', ''satisfeito'']"

definition farewell_keywords :: "string list" where
  "farewell_keywords =
     [''tchau'', ''at'' @ e_acute @ '' logo'', ''at'' @ e_acute @ '' mais'', ''obrigado'',
      ''obrigada'', ''valeu'', ''falou'', ''bye'', ''at'' @ e_acute]"

definition help_keywords :: "string list" where
  "help_keywords =
     [''ajuda'', ''socorro'', ''n'' @ a_tilde @ ''o entendi'', ''como'',
      ''d'' @ u_acute @ ''vida'', ''informa'' @ c_cedilla @ a_tilde @ ''o'', ''explicar'',
      ''esclarecer'']"

text \<open>\<open>INTENT_KEYWORDS\<close>, in the order of its declaration.\<close>

definition INTENT_KEYWORDS :: "(IntentType \<times> string list) list" where
  "INTENT_KEYWORDS =
     [(greeting, greeting_keywords), (scheduling, scheduling_keywords),
      (reschedule, reschedule_keywords), (cancel, cancel_keywords),
      (services_info, services_info_keywords), (prices_info, prices_info_keywords),
      (availability, availability_keywords), (confirmation, confirmation_keywords),
      (complaint, complaint_keywords), (compliment, compliment_keywords),
      (farewell, farewell_keywords), (help_intent, help_keywords), (other, [])]"

text \<open>The keys of the \<open>scores\<close> literal, in the order it lists them.\<close>

definition score_order :: "IntentType list" where
  "score_order =
     [greeting, scheduling, reschedule, cancel, services_info, prices_info, availability,
      confirmation, complaint, compliment, farewell, help_intent, other]"

record keyword_result =
  kw_intent :: IntentType
  kw_confidence :: real

text \<open>First loop: \<open>scores[intent] += 1\<close> for every keyword the message includes.\<close>

definition countKeyword ::
  "string \<Rightarrow> IntentType \<Rightarrow> (IntentType \<Rightarrow> nat) \<Rightarrow> string \<Rightarrow> (IntentType \<Rightarrow> nat)" where
  "countKeyword normalizedMessage intent scores keyword =
     (if js_includes normalizedMessage keyword then scores(intent := scores intent + 1)
      else scores)"

definition countIntent ::
  "string \<Rightarrow> (IntentType \<Rightarrow> nat) \<Rightarrow> IntentType \<times> string list \<Rightarrow> (IntentType \<Rightarrow> nat)" where
  "countIntent normalizedMessage scores entry =
     foldl (countKeyword normalizedMessage (fst entry)) scores (snd entry)"

definition keywordScores :: "string \<Rightarrow> (IntentType \<Rightarrow> nat)" where
  "keywordScores normalizedMessage =
     foldl (countIntent normalizedMessage) (\<lambda>intent. 0) INTENT_KEYWORDS"

text \<open>Second loop: a strictly higher score replaces the running maximum.\<close>

definition pickHigher :: "(IntentType \<Rightarrow> nat) \<Rightarrow> nat \<times> IntentType \<Rightarrow> IntentType \<Rightarrow> nat \<times> IntentType" where
  "pickHigher scores best intent =
     (if scores intent > fst best then (scores intent, intent) else best)"

text \<open>
  The confidence is a double in the source. Its only values are \<open>0.1\<close> and
  \<open>min(n * 0.3, 0.8)\<close> for a count \<open>n \<ge> 1\<close>, that is \<open>0.3\<close>, \<open>0.6\<close> (the double
  \<open>2 * 0.3\<close> is the double \<open>0.6\<close>) and \<open>0.8\<close>; on these the real numbers compare as
  the doubles do.
\<close>

definition detectIntentByKeywords :: "(string \<Rightarrow> string) \<Rightarrow> string \<Rightarrow> keyword_result" where
  "detectIntentByKeywords toLowerCase message =
     (let normalizedMessage = toLowerCase message;
          scores = keywordScores normalizedMessage;
          best = foldl (pickHigher scores) (0, other) score_order;
          maxScore = fst best;
          detectedIntent = snd best
      in \<lparr> kw_intent = detectedIntent,
           kw_confidence = (if maxScore > 0 then min (real maxScore * 0.3) 0.8 else 0.1) \<rparr>)"

text \<open>
  The keyword stage as the specification words it: the score of an intent is the number
  of its keywords that occur in the text; the first declared intent with the highest
  score wins; with no hit the result is \<open>other\<close> at confidence 0.1.
\<close>

definition keywords_of :: "IntentType \<Rightarrow> string list" where
  "keywords_of intent = (case map_of INTENT_KEYWORDS intent of Some ks \<Rightarrow> ks | None \<Rightarrow> [])"

definition hits :: "string \<Rightarrow> IntentType \<Rightarrow> nat" where
  "hits text intent = length (filter (js_includes text) (keywords_of intent))"

definition highest_hits :: "string \<Rightarrow> nat" where
  "highest_hits text = fold max (map (hits text) score_order) 0"

definition spec_keyword_stage :: "string \<Rightarrow> keyword_result" where
  "spec_keyword_stage text =
     (if highest_hits text = 0 then \<lparr> kw_intent = other, kw_confidence = 0.1 \<rparr>
      else \<lparr> kw_intent = hd (filter (\<lambda>intent. hits text intent = highest_hits text) score_order),
             kw_confidence = min 0.8 (real (highest_hits text) * 0.3) \<rparr>)"

text \<open>
  The LLM collaborator of \<open>analyzeIntent\<close>: what it is asked, and the shapes its reply
  can take: the call rejects; the content is not JSON; the JSON is \<open>null\<close> or a
  primitive (reading or writing a property of it throws); or it is an object with
  its \<open>intent\<close>, \<open>confidence\<close> and \<open>sentiment\<close> members (an intent that is absent
  or no string is \<open>None\<close>).
\<close>

record analysis_request =
  req_message :: string
  req_suggested :: IntentType
  req_context :: "jsobj option"

datatype llm_reply =
  LlmError | LlmMalformed | LlmNoObject | LlmObject "string option" real string

record IntentAnalysis =
  ai_intent :: IntentType
  ai_confidence :: real
  ai_sentiment :: string

definition intent_names :: "(string \<times> IntentType) list" where
  "intent_names =
     [(''greeting'', greeting), (''scheduling'', scheduling), (''reschedule'', reschedule),
      (''cancel'', cancel), (''services_info'', services_info), (''prices_info'', prices_info),
      (''availability'', availability), (''confirmation'', confirmation),
      (''complaint'', complaint), (''compliment'', compliment), (''farewell'', farewell),
      (''help'', help_intent), (''other'', other)]"

text \<open>The context digest of the prompt: name, last intent, state, last three topics.\<close>

definition contextInfo :: "jsobj \<Rightarrow> jsobj" where
  "contextInfo context =
     [(''client_name'', obj_get context ''client_name''),
      (''intent'', obj_get context ''intent''),
      (''conversation_state'', obj_get context ''conversation_state''),
      (''lastTopics'',
         (case obj_get (spread (obj_get context ''context_data'')) ''lastTopics'' of
            JArr ts \<Rightarrow> JArr (drop (length ts - 3) ts)
          | _ \<Rightarrow> JArr []))]"

definition analysisRequest :: "string \<Rightarrow> IntentType \<Rightarrow> jsobj option \<Rightarrow> analysis_request" where
  "analysisRequest message suggestedIntent context =
     \<lparr> req_message = message, req_suggested = suggestedIntent,
       req_context = map_option contextInfo context \<rparr>"

definition validateAnalysis :: "string option \<Rightarrow> real \<Rightarrow> string \<Rightarrow> IntentAnalysis" where
  "validateAnalysis intent confidence sentiment =
     \<lparr> ai_intent = (case intent of None \<Rightarrow> other
                    | Some name \<Rightarrow> (case map_of intent_names name of
                                      None \<Rightarrow> other | Some i \<Rightarrow> i)),
       ai_confidence = (if confidence < 0 \<or> confidence > 1 then 0.5 else confidence),
       ai_sentiment = (if sentiment \<in> set [''positive'', ''neutral'', ''negative'']
                       then sentiment else ''neutral'') \<rparr>"

definition analyzeIntent ::
  "(analysis_request \<Rightarrow> llm_reply) \<Rightarrow> string \<Rightarrow> IntentType \<Rightarrow> jsobj option \<Rightarrow> IntentAnalysis" where
  "analyzeIntent llm message suggestedIntent context =
     (case llm (analysisRequest message suggestedIntent context) of
        LlmError \<Rightarrow>
          \<lparr> ai_intent = suggestedIntent, ai_confidence = 0.3, ai_sentiment = ''neutral'' \<rparr>
      | LlmNoObject \<Rightarrow>
          \<lparr> ai_intent = suggestedIntent, ai_confidence = 0.3, ai_sentiment = ''neutral'' \<rparr>
      | LlmMalformed \<Rightarrow>
          \<lparr> ai_intent = suggestedIntent, ai_confidence = 0.5, ai_sentiment = ''neutral'' \<rparr>
      | LlmObject intent confidence sentiment \<Rightarrow> validateAnalysis intent confidence sentiment)"

text \<open>
  \<open>detectIntent\<close>: the intent it resolves to and the requests it made of the LLM
  collaborator. Neither stage throws, so the \<open>catch\<close> of the source is never entered.
\<close>

definition detectIntent ::
  "(string \<Rightarrow> string) \<Rightarrow> (analysis_request \<Rightarrow> llm_reply) \<Rightarrow> string \<Rightarrow> jsobj option
   \<Rightarrow> IntentType \<times> analysis_request list" where
  "detectIntent toLowerCase llm message context =
     (let keywordResult = detectIntentByKeywords toLowerCase message
      in if kw_confidence keywordResult > 0.6 then (kw_intent keywordResult, [])
         else (ai_intent (analyzeIntent llm message (kw_intent keywordResult) context),
               [analysisRequest message (kw_intent keywordResult) context]))"

text \<open>A lower-casing for texts in ASCII, for the examples.\<close>

definition ascii_lower :: "string \<Rightarrow> string" where
  "ascii_lower s =
     map (\<lambda>c. if of_char c \<ge> (65::nat) \<and> of_char c \<le> (90::nat)
               then char_of (of_char c + (32::nat)) else c) s"

section \<open>Template engine (the substitution loop of automaticMessageService)\<close>

text \<open>
  \<open>GetSubstitution\<close> for a pattern without capture groups: in the replacement text,
  \<open>$$\<close> is a dollar sign, \<open>$&\<close> the matched text, \<open>$`\<close> the text before the match
  and \<open>$'\<close> the text after it; every other character stands for itself.
\<close>

fun getSubstitution :: "string \<Rightarrow> string \<Rightarrow> string \<Rightarrow> string \<Rightarrow> string" where
  "getSubstitution matched preceding after [] = []"
| "getSubstitution matched preceding after [c] = [c]"
| "getSubstitution matched preceding after (c # d # rest) =
     (if c = CHR ''$'' \<and> d = CHR ''$'' then CHR ''$'' # getSubstitution matched preceding after rest
      else if c = CHR ''$'' \<and> d = CHR ''&'' then matched @ getSubstitution matched preceding after rest
      else if c = CHR ''$'' \<and> d = CHR 0x60 then preceding @ getSubstitution matched preceding after rest
      else if c = CHR ''$'' \<and> d = CHR 0x27 then after @ getSubstitution matched preceding after rest
      else c # getSubstitution matched preceding after (d # rest))"

text \<open>
  \<open>str.replace(new RegExp(pattern, 'g'), replacement)\<close> for a pattern that matches
  exactly its own text: the matches are found from left to right without overlap, and
  \<open>preceding\<close> is the part of the string already passed over.
\<close>

function replaceFrom :: "string \<Rightarrow> string \<Rightarrow> string \<Rightarrow> string \<Rightarrow> string" where
  "replaceFrom pat rep preceding [] = []"
| "replaceFrom pat rep preceding (c # cs) =
     (if pat \<noteq> [] \<and> prefix pat (c # cs)
      then getSubstitution pat preceding (drop (length pat) (c # cs)) rep
           @ replaceFrom pat rep (preceding @ pat) (drop (length pat) (c # cs))
      else c # replaceFrom pat rep (preceding @ [c]) cs)"
  by pat_completeness auto
termination
  by (relation "measure (\<lambda>(pat, rep, preceding, s). length s)") auto

text \<open>
  The pattern is the text \<open>{key}\<close>. As a regular expression it matches exactly that
  text when the key is made of letters, digits and underscores and is not all digits
  (\<open>{12}\<close> would be a quantifier); the theorems below are about such keys.
\<close>

definition placeholder :: "string \<Rightarrow> string" where
  "placeholder key = CHR ''{'' # key @ ''}''"

definition wordChar :: "char \<Rightarrow> bool" where
  "wordChar c =
     (let n = (of_char c :: nat)
      in (65 \<le> n \<and> n \<le> 90) \<or> (97 \<le> n \<and> n \<le> 122) \<or> (48 \<le> n \<and> n \<le> 57) \<or> n = 95)"

definition digitChar :: "char \<Rightarrow> bool" where
  "digitChar c = (let n = (of_char c :: nat) in 48 \<le> n \<and> n \<le> 57)"

definition plainKey :: "string \<Rightarrow> bool" where
  "plainKey key = (list_all wordChar key \<and> \<not> list_all digitChar key)"

definition substitute :: "string \<Rightarrow> string \<Rightarrow> string \<Rightarrow> string" where
  "substitute key val messageContent = replaceFrom (placeholder key) val [] messageContent"

text \<open>
  The loop over \<open>Object.entries(variables)\<close>; the variables are given as their
  entries in insertion order.
\<close>

definition renderContent :: "string \<Rightarrow> (string \<times> string) list \<Rightarrow> string" where
  "renderContent content variables =
     foldl (\<lambda>messageContent (key, val). substitute key val messageContent) content variables"

text \<open>
  Templates whose braces occur only as placeholders: a sequence of literal texts and
  placeholders, none of which contains a brace. A value is plain when it contains no
  brace and no dollar sign.
\<close>

datatype segment = Lit string | Hole string

definition braceFree :: "string \<Rightarrow> bool" where
  "braceFree s = (CHR ''{'' \<notin> set s \<and> CHR ''}'' \<notin> set s)"

definition plainValue :: "string \<Rightarrow> bool" where
  "plainValue v = (braceFree v \<and> CHR ''$'' \<notin> set v)"

fun segmentText :: "segment \<Rightarrow> string" where
  "segmentText (Lit s) = s"
| "segmentText (Hole name) = placeholder name"

definition templateText :: "segment list \<Rightarrow> string" where
  "templateText segs = concat (map segmentText segs)"

fun wellFormed :: "segment \<Rightarrow> bool" where
  "wellFormed (Lit s) = braceFree s"
| "wellFormed (Hole name) = braceFree name"

text \<open>What the specification asks of \<open>render\<close>: a placeholder whose name is a key
  becomes the value, every other segment stays.\<close>

fun fillSegment :: "(string \<times> string) list \<Rightarrow> segment \<Rightarrow> segment" where
  "fillSegment variables (Lit s) = Lit s"
| "fillSegment variables (Hole name) =
     (case map_of variables name of Some v \<Rightarrow> Lit v | None \<Rightarrow> Hole name)"

text \<open>The same for one key: what one pass of the loop is to do.\<close>

fun fillKey :: "string \<Rightarrow> string \<Rightarrow> segment \<Rightarrow> segment" where
  "fillKey key val (Lit s) = Lit s"
| "fillKey key val (Hole name) = (if name = key then Lit val else Hole name)"

section \<open>Scheduled delivery (processPendingMessages, sendScheduledMessage)\<close>

datatype delivery_status = status_pending | status_sent | status_failed

text \<open>A row of \<open>scheduled_messages\<close>; instants are numbers.\<close>

record ScheduledMessage =
  sm_id :: string
  sm_client_phone :: string
  sm_message_content :: string
  sm_scheduled_for :: nat
  sm_status :: delivery_status
  sm_sent_at :: "nat option"
  sm_appointment_id :: "string option"
  sm_establishment_id :: string

text \<open>
  What the collaborators do during one sweep: whether the select comes back with an
  error; for each message, whether \<open>sendTextMessage\<close> reports success, reports
  failure, or an exception is thrown; whether the write of the new status comes back
  with an error (it is then only logged); and the clock read for \<open>sent_at\<close>.
\<close>

datatype send_outcome = SendOk | SendFailed | SendThrows

record sweep_env =
  queryError :: bool
  sendResult :: "ScheduledMessage \<Rightarrow> send_outcome"
  writeFails :: "ScheduledMessage \<Rightarrow> bool"
  clock :: "ScheduledMessage \<Rightarrow> nat"

text \<open>\<open>update(values).eq('id', id)\<close>.\<close>

definition updateRows ::
  "string \<Rightarrow> (ScheduledMessage \<Rightarrow> ScheduledMessage) \<Rightarrow> ScheduledMessage list
   \<Rightarrow> ScheduledMessage list" where
  "updateRows i f table = map (\<lambda>row. if sm_id row = i then f row else row) table"

text \<open>The values \<open>sendScheduledMessage\<close> writes for a message, by the outcome of the send.\<close>

definition newValues :: "sweep_env \<Rightarrow> ScheduledMessage \<Rightarrow> ScheduledMessage \<Rightarrow> ScheduledMessage" where
  "newValues env message row =
     (case sendResult env message of
        SendOk \<Rightarrow> row\<lparr> sm_status := status_sent, sm_sent_at := Some (clock env message) \<rparr>
      | SendFailed \<Rightarrow> row\<lparr> sm_status := status_failed, sm_sent_at := None \<rparr>
      | SendThrows \<Rightarrow> row\<lparr> sm_status := status_failed \<rparr>)"

definition sendScheduledMessage ::
  "sweep_env \<Rightarrow> ScheduledMessage list \<Rightarrow> ScheduledMessage \<Rightarrow> ScheduledMessage list" where
  "sendScheduledMessage env table message =
     (if writeFails env message then table
      else updateRows (sm_id message) (newValues env message) table)"

text \<open>The select: pending rows due at \<open>now\<close>, by ascending \<open>scheduled_for\<close>.\<close>

definition pendingMessages :: "nat \<Rightarrow> ScheduledMessage list \<Rightarrow> ScheduledMessage list" where
  "pendingMessages now table =
     sort_key sm_scheduled_for
       (filter (\<lambda>m. sm_status m = status_pending \<and> sm_scheduled_for m \<le> now) table)"

definition processPendingMessages ::
  "sweep_env \<Rightarrow> nat \<Rightarrow> ScheduledMessage list \<Rightarrow> ScheduledMessage list" where
  "processPendingMessages env now table =
     (if queryError env then table
      else foldl (sendScheduledMessage env) table (pendingMessages now table))"

definition row_of :: "string \<Rightarrow> ScheduledMessage list \<Rightarrow> ScheduledMessage option" where
  "row_of i table = find (\<lambda>row. sm_id row = i) table"

definition example_message :: "string \<Rightarrow> nat \<Rightarrow> delivery_status \<Rightarrow> ScheduledMessage" where
  "example_message i t s =
     \<lparr> sm_id = i, sm_client_phone = ''5511999990000'', sm_message_content = ''Lembrete'',
       sm_scheduled_for = t, sm_status = s, sm_sent_at = None, sm_appointment_id = None,
       sm_establishment_id = ''e1'' \<rparr>"

definition example_queue :: "ScheduledMessage list" where
  "example_queue =
     [example_message ''m1'' 50 status_pending, example_message ''m2'' 20 status_pending,
      example_message ''m3'' 10 status_failed, example_message ''m4'' 90 status_pending]"

definition example_sweep_env :: "bool \<Rightarrow> sweep_env" where
  "example_sweep_env fails =
     \<lparr> queryError = False,
       sendResult = (\<lambda>m. if sm_id m = ''m2'' then SendFailed else SendOk),
       writeFails = (\<lambda>m. fails),
       clock = (\<lambda>m. 61) \<rparr>"

section \<open>Conversation orchestrator (messageProcessor)\<close>

text \<open>
  The tables the flow handlers reach through \<open>appointmentService\<close>, the log of
  messages, and the texts the messaging gateway accepted (\<open>outbox\<close>).
\<close>

record client_row =
  client_id :: string
  client_phone :: string
  client_establishment_id :: string

record service_row =
  service_id :: string
  service_name :: string

text \<open>
  The replies. The fixed texts are named by their role; a text built from an
  appointment (its date in the display format of the locale) is kept as the
  appointment it is built from.
\<close>

datatype reply =
  NotTextNotice
  | Welcome
  | Reprompt
  | CancelledText jsval
  | CancelErrorText
  | NothingToCancel
  | CancelListing "jsval list"
  | CancelApology
  | FlowText string
  | AiText string

datatype logged = Inbound string | Outbound reply

record world =
  contexts :: context_table
  appointment_rows :: "appointment_row list"
  client_rows :: "client_row list"
  professional_rows :: "professional_row list"
  service_rows :: "service_row list"
  message_log :: "(string \<times> logged) list"
  outbox :: "(string \<times> reply) list"

record ProcessedMessage =
  pm_messageId :: string
  pm_clientPhone :: string
  pm_messageContent :: string
  pm_messageType :: string

record ProcessingResult =
  success :: bool
  response :: "reply option"
  error :: "string option"

text \<open>
  What the collaborators do during one turn: the lower-casing of the host, the LLM of
  the classifier, the LLM of the reply (\<open>None\<close>: \<open>generateResponse\<close> throws), the
  gateway, the outcome of each persistence call, the default establishment of the
  environment, \<open>uuidv4()\<close> and the clock. The scheduling flow
  (\<open>handleSchedulingIntent\<close>) catches its own exceptions and always returns a text; it
  is taken as it comes, and every statement below holds whatever it does.
\<close>

record turn_env =
  te_lower :: "string \<Rightarrow> string"
  te_llm :: "analysis_request \<Rightarrow> llm_reply"
  te_generate :: "string \<Rightarrow> jsobj \<Rightarrow> (string \<times> logged) list \<Rightarrow> string option"
  te_send :: "string \<Rightarrow> reply \<Rightarrow> bool"
  te_scheduling :: "world \<Rightarrow> ProcessedMessage \<Rightarrow> jsobj \<Rightarrow> reply \<times> world"
  te_save_error :: bool
  te_save_outbound_error :: bool
  te_history_error :: bool
  te_load :: db_outcome
  te_intent_update :: db_outcome
  te_flow_update :: db_outcome
  te_final_update :: db_outcome
  te_client_error :: bool
  te_search_error :: bool
  te_cancel_error :: bool
  te_default_establishment :: string
  te_uuid :: string
  te_now :: string

subsection \<open>appointmentService, as the handlers use it\<close>

fun status_name :: "appt_status \<Rightarrow> string" where
  "status_name scheduled = ''scheduled''"
| "status_name confirmed = ''confirmed''"
| "status_name cancelled = ''cancelled''"
| "status_name completed = ''completed''"
| "status_name pending = ''pending''"
| "status_name no_show = ''no_show''"
| "status_name in_progress = ''in_progress''"

text \<open>An embedded row of a join: the object of the referenced row, \<open>null\<close> without one.\<close>

definition professionalJoin :: "world \<Rightarrow> string \<Rightarrow> jsval" where
  "professionalJoin w i =
     (case find (\<lambda>p. prof_id p = i) (professional_rows w) of
        None \<Rightarrow> JNull | Some p \<Rightarrow> JObj [(''name'', JStr (prof_name p))])"

definition serviceJoin :: "world \<Rightarrow> string \<Rightarrow> jsval" where
  "serviceJoin w i =
     (case find (\<lambda>s. service_id s = i) (service_rows w) of
        None \<Rightarrow> JNull | Some s \<Rightarrow> JObj [(''name'', JStr (service_name s))])"

definition appointmentObject :: "world \<Rightarrow> appointment_row \<Rightarrow> jsval" where
  "appointmentObject w a =
     JObj [(''id'', JStr (appt_id a)),
           (''professional_id'', JStr (appt_professional_id a)),
           (''client_id'', JStr (appt_client_id a)),
           (''service_id'', JStr (appt_service_id a)),
           (''appointment_date'', JStr (appt_date a)),
           (''appointment_time'', JStr (appt_time a)),
           (''status'', JStr (status_name (appt_status a))),
           (''professionals'', professionalJoin w (appt_professional_id a)),
           (''services'', serviceJoin w (appt_service_id a))]"

text \<open>\<open>searchAppointments({ client_id })\<close>: the client's rows by ascending date.\<close>

definition searchAppointments :: "turn_env \<Rightarrow> world \<Rightarrow> string \<Rightarrow> jsval list" where
  "searchAppointments env w cid =
     (if te_search_error env then []
      else map (appointmentObject w)
             (sort_key appt_date (filter (\<lambda>a. appt_client_id a = cid) (appointment_rows w))))"

text \<open>\<open>getClientAppointmentsByPhone\<close>: \<open>.single()\<close> is an error unless one row matches.\<close>

definition getClientAppointmentsByPhone ::
  "turn_env \<Rightarrow> world \<Rightarrow> string \<Rightarrow> string \<Rightarrow> jsval list" where
  "getClientAppointmentsByPhone env w phone establishmentId =
     (if te_client_error env then []
      else case filter (\<lambda>c. client_phone c = phone \<and> client_establishment_id c = establishmentId)
                  (client_rows w) of
             [c] \<Rightarrow> searchAppointments env w (client_id c)
           | _ \<Rightarrow> [])"

text \<open>\<open>cancelAppointment(id)\<close>: whether it reports success, and the table afterwards.\<close>

definition cancelAppointment ::
  "bool \<Rightarrow> appointment_row list \<Rightarrow> jsval \<Rightarrow> bool \<times> appointment_row list" where
  "cancelAppointment fails rows appointmentId =
     (if fails then (False, rows)
      else (True, map (\<lambda>a. if JStr (appt_id a) = appointmentId
                            then a\<lparr> appt_status := cancelled \<rparr> else a) rows))"

subsection \<open>Reading a choice\<close>

definition whiteSpace :: "char \<Rightarrow> bool" where
  "whiteSpace c = ((of_char c :: nat) \<in> {9, 10, 11, 12, 13, 32})"

definition trim :: "string \<Rightarrow> string" where
  "trim s = rev (dropWhile whiteSpace (rev (dropWhile whiteSpace s)))"

definition hexDigit :: "char \<Rightarrow> bool" where
  "hexDigit c =
     (let n = (of_char c :: nat)
      in (48 \<le> n \<and> n \<le> 57) \<or> (97 \<le> n \<and> n \<le> 102) \<or> (65 \<le> n \<and> n \<le> 70))"

definition digitValue :: "char \<Rightarrow> int" where
  "digitValue c =
     (let n = (of_char c :: nat)
      in if n \<le> 57 then int n - 48 else if n \<le> 70 then int n - 55 else int n - 87)"

definition digitsValue :: "int \<Rightarrow> string \<Rightarrow> int" where
  "digitsValue radix ds = foldl (\<lambda>acc d. acc * radix + digitValue d) 0 ds"

text \<open>
  \<open>parseInt(s)\<close> without a radix; \<open>None\<close> is \<open>NaN\<close>. Leading white space and a sign
  are skipped, \<open>0x\<close> selects base 16, and the longest prefix of digits is read. White
  space is the white space of ASCII.
\<close>

definition parseDigits :: "string \<Rightarrow> int option" where
  "parseDigits s =
     (if prefix ''0x'' s \<or> prefix ''0X'' s
      then (if takeWhile hexDigit (drop 2 s) = [] then None
            else Some (digitsValue 16 (takeWhile hexDigit (drop 2 s))))
      else (if takeWhile digitChar s = [] then None
            else Some (digitsValue 10 (takeWhile digitChar s))))"

definition parseInt :: "string \<Rightarrow> int option" where
  "parseInt s =
     (case dropWhile whiteSpace s of
        [] \<Rightarrow> None
      | c # cs \<Rightarrow>
          if c = CHR ''-'' then map_option uminus (parseDigits cs)
          else if c = CHR ''+'' then parseDigits cs
          else parseDigits (c # cs))"

text \<open>
  Property reads on a value of type \<open>any\<close>: \<open>v.length\<close>, \<open>v[i]\<close>, and \<open>v.k\<close>, which
  throws a \<open>TypeError\<close> (\<open>None\<close>) on \<open>undefined\<close> and \<open>null\<close>.
\<close>

fun js_length :: "jsval \<Rightarrow> jsval" where
  "js_length (JArr xs) = JNum (int (length xs))"
| "js_length (JStr s) = JNum (int (length s))"
| "js_length (JObj kvs) = obj_get kvs ''length''"
| "js_length v = JUndefined"

fun js_element :: "jsval \<Rightarrow> int \<Rightarrow> jsval" where
  "js_element (JArr xs) i = (if 0 \<le> i \<and> nat i < length xs then xs ! nat i else JUndefined)"
| "js_element (JStr s) i = (if 0 \<le> i \<and> nat i < length s then JStr [s ! nat i] else JUndefined)"
| "js_element (JObj kvs) i = obj_get kvs (int_toString i)"
| "js_element v i = JUndefined"

fun js_member :: "jsval \<Rightarrow> string \<Rightarrow> jsval option" where
  "js_member JUndefined k = None"
| "js_member JNull k = None"
| "js_member (JObj kvs) k = Some (obj_get kvs k)"
| "js_member v k = Some JUndefined"

text \<open>
  \<open>choice > v\<close> for a number \<open>choice\<close>. The length of an array or a string is a number;
  against \<open>undefined\<close> the comparison is false. The numeric coercion of any other value
  is not modelled and the comparison taken as false.
\<close>

fun exceeds :: "int \<Rightarrow> jsval \<Rightarrow> bool" where
  "exceeds choice (JNum n) = (choice > n)"
| "exceeds choice v = False"

subsection \<open>The cancellation flow (handleCancellationIntent)\<close>

definition clearPatch :: jsobj where
  "clearPatch = [(''awaitingCancellation'', JBool False), (''cancellableAppointments'', JUndefined)]"

definition awaitPatch :: "jsval list \<Rightarrow> jsobj" where
  "awaitPatch candidates =
     [(''awaitingCancellation'', JBool True), (''cancellableAppointments'', JArr (take 3 candidates))]"

text \<open>The texts read \<open>apt.professionals.name\<close> and \<open>apt.services.name\<close>.\<close>

definition namesReadable :: "jsval \<Rightarrow> bool" where
  "namesReadable apt =
     (case js_member apt ''professionals'' of
        None \<Rightarrow> False
      | Some p \<Rightarrow>
          (case js_member p ''name'' of
             None \<Rightarrow> False
           | Some pn \<Rightarrow>
               (case js_member apt ''services'' of
                  None \<Rightarrow> False
                | Some s \<Rightarrow> js_member s ''name'' \<noteq> None)))"

definition isCancellable :: "jsval \<Rightarrow> bool" where
  "isCancellable apt =
     (obj_get (spread apt) ''status'' = JStr ''scheduled''
      \<or> obj_get (spread apt) ''status'' = JStr ''confirmed'')"

text \<open>The second half of the handler: list up to three appointments and store them.\<close>

definition startCancellation ::
  "turn_env \<Rightarrow> world \<Rightarrow> ProcessedMessage \<Rightarrow> jsobj \<Rightarrow> reply \<times> world" where
  "startCancellation env w message ctx =
     (let appointments = getClientAppointmentsByPhone env w (pm_clientPhone message)
                           (te_default_establishment env);
          cancellableAppointments = filter isCancellable appointments
      in if cancellableAppointments = [] then (NothingToCancel, w)
         else if \<not> list_all namesReadable (take 3 cancellableAppointments)
         then (CancelApology, w)
         else (CancelListing (take 3 cancellableAppointments),
               w\<lparr> contexts :=
                    snd (updateConversationContext (te_flow_update env) (contexts w)
                           (js_toString (obj_get ctx ''establishment_id''))
                           (pm_clientPhone message)
                           (awaitPatch cancellableAppointments)
                           (te_uuid env) (te_now env)) \<rparr>))"

text \<open>The first half: the context shows a pending choice.\<close>

definition chooseCancellation ::
  "turn_env \<Rightarrow> world \<Rightarrow> ProcessedMessage \<Rightarrow> jsobj \<Rightarrow> reply \<times> world" where
  "chooseCancellation env w message ctx =
     (case parseInt (trim (te_lower env (pm_messageContent message))) of
        None \<Rightarrow> (Reprompt, w)
      | Some choice \<Rightarrow>
          if choice < 1 \<or> exceeds choice (js_length (obj_get ctx ''cancellableAppointments''))
          then (Reprompt, w)
          else
            (let appointmentToCancel =
                   js_element (obj_get ctx ''cancellableAppointments'') (choice - 1)
             in case js_member appointmentToCancel ''id'' of
                  None \<Rightarrow> (CancelApology, w)
                | Some appointmentId \<Rightarrow>
                    (let result = cancelAppointment (te_cancel_error env)
                                    (appointment_rows w) appointmentId;
                         w1 = w\<lparr> appointment_rows := snd result \<rparr>;
                         w2 = w1\<lparr> contexts :=
                                 snd (updateConversationContext (te_flow_update env)
                                        (contexts w1)
                                        (js_toString (obj_get ctx ''establishment_id''))
                                        (pm_clientPhone message) clearPatch
                                        (te_uuid env) (te_now env)) \<rparr>
                     in if fst result
                        then (if namesReadable appointmentToCancel
                              then (CancelledText appointmentToCancel, w2)
                              else (CancelApology, w2))
                        else (CancelErrorText, w2))))"

definition handleCancellationIntent ::
  "turn_env \<Rightarrow> world \<Rightarrow> ProcessedMessage \<Rightarrow> jsobj \<Rightarrow> reply \<times> world" where
  "handleCancellationIntent env w message ctx =
     (if truthy (obj_get ctx ''awaitingCancellation'')
         \<and> truthy (obj_get ctx ''cancellableAppointments'')
      then chooseCancellation env w message ctx
      else startCancellation env w message ctx)"

subsection \<open>One turn (processMessage)\<close>

fun intent_name :: "IntentType \<Rightarrow> string" where
  "intent_name greeting = ''greeting''"
| "intent_name scheduling = ''scheduling''"
| "intent_name reschedule = ''reschedule''"
| "intent_name cancel = ''cancel''"
| "intent_name services_info = ''services_info''"
| "intent_name prices_info = ''prices_info''"
| "intent_name availability = ''availability''"
| "intent_name confirmation = ''confirmation''"
| "intent_name complaint = ''complaint''"
| "intent_name compliment = ''compliment''"
| "intent_name farewell = ''farewell''"
| "intent_name help_intent = ''help''"
| "intent_name other = ''other''"

definition failedTurn :: "string \<Rightarrow> ProcessingResult" where
  "failedTurn e = \<lparr> success = False, response = None, error = Some e \<rparr>"

text \<open>\<open>sendTextMessage\<close> never throws; an accepted text is on its way to the client.\<close>

definition deliver :: "turn_env \<Rightarrow> string \<Rightarrow> reply \<Rightarrow> world \<Rightarrow> world" where
  "deliver env phone text w =
     (if te_send env phone text then w\<lparr> outbox := outbox w @ [(phone, text)] \<rparr> else w)"

definition isNewClient :: "jsobj \<Rightarrow> bool" where
  "isNewClient ctx =
     (obj_get (spread (obj_get ctx ''context_data'')) ''messageCount'' = JNum 0)"

text \<open>\<open>getConversationHistory\<close>: the last ten logged messages of the phone, oldest first.\<close>

definition getConversationHistory :: "turn_env \<Rightarrow> world \<Rightarrow> string \<Rightarrow> (string \<times> logged) list" where
  "getConversationHistory env w phone =
     (if te_history_error env then []
      else (let mine = filter (\<lambda>entry. fst entry = phone) (message_log w)
            in drop (length mine - 10) mine))"

text \<open>
  The dispatch on the intent. \<open>None\<close> is the exception of \<open>generateResponse\<close>, which no
  handler catches: it reaches the \<open>catch\<close> of \<open>processMessage\<close>.
\<close>

definition flowReply ::
  "turn_env \<Rightarrow> world \<Rightarrow> ProcessedMessage \<Rightarrow> jsobj \<Rightarrow> IntentType \<Rightarrow> (reply \<times> world) option" where
  "flowReply env w message ctx intent =
     (if intent = scheduling then Some (te_scheduling env w message ctx)
      else if intent = cancel then Some (handleCancellationIntent env w message ctx)
      else case te_generate env (pm_messageContent message) ctx
                  (getConversationHistory env w (pm_clientPhone message)) of
             None \<Rightarrow> None
           | Some text \<Rightarrow> Some (AiText text, w))"

definition recordIntent :: "turn_env \<Rightarrow> jsobj \<Rightarrow> IntentType \<Rightarrow> world \<Rightarrow> world" where
  "recordIntent env ctx intent w =
     (if JStr (intent_name intent) \<noteq> obj_get ctx ''intent''
      then w\<lparr> contexts :=
               snd (updateConversationContext (te_intent_update env) (contexts w)
                      (js_toString (obj_get ctx ''establishment_id''))
                      (js_toString (obj_get ctx ''client_phone''))
                      [(''intent'', JStr (intent_name intent))]
                      (te_uuid env) (te_now env)) \<rparr>
      else w)"

text \<open>
  The reply as the string stored in the history. The texts that are kept by their role
  are all stored as one string here; nothing below reads it back.
\<close>

definition replyValue :: "reply \<Rightarrow> jsval" where
  "replyValue text = (case text of AiText s \<Rightarrow> JStr s | FlowText s \<Rightarrow> JStr s | _ \<Rightarrow> JStr ''reply'')"

text \<open>After a successful send: \<open>saveOutboundMessage\<close>, then the update with the exchange.\<close>

definition recordExchange ::
  "turn_env \<Rightarrow> jsobj \<Rightarrow> ProcessedMessage \<Rightarrow> reply \<Rightarrow> world \<Rightarrow> world" where
  "recordExchange env ctx message text w =
     w\<lparr> message_log :=
          (if te_save_outbound_error env then message_log w
           else message_log w @ [(pm_clientPhone message, Outbound text)]),
        contexts :=
          snd (updateConversationContext (te_final_update env) (contexts w)
                 (js_toString (obj_get ctx ''establishment_id''))
                 (js_toString (obj_get ctx ''client_phone''))
                 [(''lastMessage'', JStr (pm_messageContent message)),
                  (''lastResponse'', replyValue text)]
                 (te_uuid env) (te_now env)) \<rparr>"

definition isTextMessage :: "ProcessedMessage \<Rightarrow> bool" where
  "isTextMessage message = (pm_messageType message = ''text'' \<and> pm_messageContent message \<noteq> [])"

text \<open>
  \<open>processMessage\<close>: the result it returns and the world afterwards. The calls of the
  monitoring service catch their own errors and change nothing here; they are left
  out. An exception (of \<open>saveMessage\<close> or of \<open>generateResponse\<close>) ends the turn in the
  \<open>catch\<close>, with what was done before it.
\<close>

definition processMessage ::
  "turn_env \<Rightarrow> world \<Rightarrow> ProcessedMessage \<Rightarrow> ProcessingResult \<times> world" where
  "processMessage env w message =
     (if te_save_error env then (failedTurn ''Falha no processamento da mensagem'', w)
      else
        (let w0 = w\<lparr> message_log := message_log w
                       @ [(pm_clientPhone message, Inbound (pm_messageContent message))] \<rparr>
         in if \<not> isTextMessage message
            then (\<lparr> success = True, response = Some NotTextNotice, error = None \<rparr>, w0)
            else
              (case getConversationContext (te_load env) (contexts w0) ''default''
                      (pm_clientPhone message) (te_uuid env) (te_now env) of
                 (None, tbl) \<Rightarrow>
                   (failedTurn (''Falha ao obter contexto da conversa'' @ c_cedilla @ a_tilde @ ''o''),
                    w0\<lparr> contexts := tbl \<rparr>)
               | (Some loaded, tbl) \<Rightarrow>
                   (let w1 = w0\<lparr> contexts := tbl \<rparr>;
                        w2 = (if isNewClient loaded
                              then deliver env (pm_clientPhone message) Welcome w1 else w1);
                        intent = fst (detectIntent (te_lower env) (te_llm env)
                                        (pm_messageContent message) (Some loaded));
                        w3 = recordIntent env loaded intent w2;
                        ctx = obj_set loaded ''intent'' (JStr (intent_name intent))
                    in case flowReply env w3 message ctx intent of
                         None \<Rightarrow> (failedTurn ''Falha no processamento da mensagem'', w3)
                       | Some (responseMessage, w4) \<Rightarrow>
                           if te_send env (pm_clientPhone message) responseMessage
                           then (\<lparr> success = True, response = Some responseMessage,
                                    error = None \<rparr>,
                                 recordExchange env ctx message responseMessage
                                   (w4\<lparr> outbox := outbox w4
                                          @ [(pm_clientPhone message, responseMessage)] \<rparr>))
                           else (failedTurn ''Falha ao enviar resposta'', w4)))))"

text \<open>The texts accepted by the gateway before the dispatch: the welcome of a new client.\<close>

definition welcomed :: "turn_env \<Rightarrow> string \<Rightarrow> jsobj \<Rightarrow> (string \<times> reply) list" where
  "welcomed env phone loaded =
     (if isNewClient loaded \<and> te_send env phone Welcome then [(phone, Welcome)] else [])"

text \<open>An example: a client with three bookings, and collaborators that all work.\<close>

definition example_appointment :: "string \<Rightarrow> string \<Rightarrow> appt_status \<Rightarrow> appointment_row" where
  "example_appointment i d s =
     \<lparr> appt_id = i, appt_professional_id = ''p1'', appt_client_id = ''c1'',
       appt_service_id = ''s1'', appt_date = d, appt_time = ''09:00:00'', appt_status = s \<rparr>"

definition example_world :: world where
  "example_world =
     \<lparr> contexts = Map.empty,
       appointment_rows =
         [example_appointment ''a1'' ''2024-05-02'' scheduled,
          example_appointment ''a2'' ''2024-05-03'' confirmed,
          example_appointment ''a3'' ''2024-05-04'' scheduled],
       client_rows =
         [\<lparr> client_id = ''c1'', client_phone = ''5511999990000'',
            client_establishment_id = ''e1'' \<rparr>],
       professional_rows =
         [\<lparr> prof_id = ''p1'', prof_name = ''Ana'', prof_establishment_id = ''e1'',
            prof_active = True \<rparr>],
       service_rows = [\<lparr> service_id = ''s1'', service_name = ''Corte'' \<rparr>],
       message_log = [],
       outbox = [] \<rparr>"

definition example_env :: "llm_reply \<Rightarrow> string option \<Rightarrow> bool \<Rightarrow> turn_env" where
  "example_env classifier generated cancelFails =
     \<lparr> te_lower = ascii_lower,
       te_llm = (\<lambda>request. classifier),
       te_generate = (\<lambda>text ctx history. generated),
       te_send = (\<lambda>phone text. True),
       te_scheduling = (\<lambda>w message ctx. (FlowText ''menu'', w)),
       te_save_error = False,
       te_save_outbound_error = False,
       te_history_error = False,
       te_load = db_ok,
       te_intent_update = db_ok,
       te_flow_update = db_ok,
       te_final_update = db_ok,
       te_client_error = False,
       te_search_error = False,
       te_cancel_error = cancelFails,
       te_default_establishment = ''e1'',
       te_uuid = ''u1'',
       te_now = ''t1'' \<rparr>"

definition text_message :: "string \<Rightarrow> ProcessedMessage" where
  "text_message s =
     \<lparr> pm_messageId = ''id'', pm_clientPhone = ''5511999990000'', pm_messageContent = s,
       pm_messageType = ''text'' \<rparr>"

definition says_cancel :: llm_reply where
  "says_cancel = LlmObject (Some ''cancel'') 0.9 ''neutral''"

text \<open>The world after the client asked to cancel and was shown the list.\<close>

definition after_listing :: world where
  "after_listing =
     snd (processMessage (example_env says_cancel None False) example_world
            (text_message ''quero cancelar''))"


definition says_greeting :: llm_reply where
  "says_greeting = LlmObject (Some ''greeting'') 0.9 ''neutral''"

definition example_key :: "string \<times> string" where
  "example_key = (''default'', ''5511999990000'')"



section \<open>Properties of the availability engine\<close>

lemma slot_grid_eq:
  "slot_grid =
     [''08:00:00'', ''08:30:00'', ''09:00:00'', ''09:30:00'', ''10:00:00'', ''10:30:00'',
      ''11:00:00'', ''11:30:00'', ''12:00:00'', ''12:30:00'', ''13:00:00'', ''13:30:00'',
      ''14:00:00'', ''14:30:00'', ''15:00:00'', ''15:30:00'', ''16:00:00'', ''16:30:00'',
      ''17:00:00'', ''17:30:00'']"
  by code_simp

lemma slotsOf_mem:
  "s \<in> set (slotsOf existing d p) \<longleftrightarrow>
     (\<exists>hour \<in> set [startHour ..< endHour]. \<exists>minute \<in> set [0, 30].
        \<not> isOccupied existing p (timeSlot hour minute)
        \<and> s = \<lparr> slot_date = d, slot_time = timeSlot hour minute,
                 slot_professional_id = prof_id p,
                 slot_professional_name = prof_name p \<rparr>)"
  unfolding slotsOf_def set_concat set_map
  by (simp del: set_upt) blast

lemma slot_grid_mem:
  "hour \<in> set [startHour ..< endHour] \<Longrightarrow> minute \<in> set [0, 30]
   \<Longrightarrow> timeSlot hour minute \<in> set slot_grid"
  unfolding slot_grid_def set_concat set_map
  by (simp del: set_upt) blast

lemma slotsOf_sound:
  assumes "s \<in> set (slotsOf existing d p)"
  shows "slot_date s = d \<and> slot_time s \<in> set slot_grid
         \<and> slot_professional_id s = prof_id p \<and> slot_professional_name s = prof_name p
         \<and> \<not> isOccupied existing p (slot_time s)"
proof -
  from assms obtain hour minute where
    h: "hour \<in> set [startHour ..< endHour]" and m: "minute \<in> set [0, 30]"
    and free: "\<not> isOccupied existing p (timeSlot hour minute)"
    and s: "s = \<lparr> slot_date = d, slot_time = timeSlot hour minute,
                   slot_professional_id = prof_id p,
                   slot_professional_name = prof_name p \<rparr>"
    unfolding slotsOf_mem by blast
  from slot_grid_mem [OF h m] free s show ?thesis by simp
qed

text \<open>
  Claim C9. Every slot that \<open>getAvailableSlots\<close> returns carries the target date, a
  time of the fixed grid 08:00:00, 08:30:00, ..., 17:30:00 and the id and name of one
  of the enumerated professionals (active, of the establishment, and the requested one
  when a filter is given); and no appointment row in status scheduled or confirmed has
  the slot's professional, date and time.
\<close>

theorem getAvailableSlots_sound:
  assumes "s \<in> set (getAvailableSlots db today establishmentId date professionalId)"
  shows "slot_date s = targetDate today date
         \<and> slot_time s \<in> set slot_grid
         \<and> (\<exists>p \<in> set (professionalsQuery db establishmentId professionalId).
               slot_professional_id s = prof_id p \<and> slot_professional_name s = prof_name p)
         \<and> \<not> (\<exists>a \<in> set (appointments db). coincides a s)"
proof -
  let ?d = "targetDate today date"
  let ?ex = "existingAppointments db ?d"
  from assms obtain p where
    p: "p \<in> set (professionalsQuery db establishmentId professionalId)"
    and sp: "s \<in> set (slotsOf ?ex ?d p)"
    unfolding getAvailableSlots_def by (auto split: if_splits)
  from slotsOf_sound [OF sp] have
    d: "slot_date s = ?d" and g: "slot_time s \<in> set slot_grid"
    and i: "slot_professional_id s = prof_id p" and n: "slot_professional_name s = prof_name p"
    and free: "\<not> isOccupied ?ex p (slot_time s)"
    by simp_all
  have "\<not> coincides a s" if a: "a \<in> set (appointments db)" for a
  proof
    assume c: "coincides a s"
    with a d have "a \<in> set ?ex"
      unfolding coincides_def existingAppointments_def by simp
    moreover from c i have "appt_professional_id a = prof_id p \<and> appt_time a = slot_time s"
      unfolding coincides_def by simp
    ultimately have "isOccupied ?ex p (slot_time s)"
      unfolding isOccupied_def list_ex_iff by blast
    with free show False by simp
  qed
  with d g p i n show ?thesis by blast
qed

theorem getAvailableSlots_sound_witness:
  "\<lparr> slot_date = ''2024-05-02'', slot_time = ''08:30:00'', slot_professional_id = ''p1'',
     slot_professional_name = ''Ana'' \<rparr>
     \<in> set (getAvailableSlots example_slots_db ''2024-05-01'' ''e1'' (Some ''2024-05-02'') None)
   \<and> \<lparr> slot_date = ''2024-05-02'', slot_time = ''08:00:00'', slot_professional_id = ''p1'',
     slot_professional_name = ''Ana'' \<rparr>
     \<notin> set (getAvailableSlots example_slots_db ''2024-05-01'' ''e1'' (Some ''2024-05-02'') None)
   \<and> length (getAvailableSlots example_slots_db ''2024-05-01'' ''e1'' (Some ''2024-05-02'') None) = 19"
proof -
  let ?r = "getAvailableSlots example_slots_db ''2024-05-01'' ''e1'' (Some ''2024-05-02'') None"
  let ?taken = "\<lparr> slot_date = ''2024-05-02'', slot_time = ''08:00:00'',
                   slot_professional_id = ''p1'', slot_professional_name = ''Ana'' \<rparr>"
  have a: "hd (appointments example_slots_db) \<in> set (appointments example_slots_db)"
    by (simp add: example_slots_db_def)
  have c: "coincides (hd (appointments example_slots_db)) ?taken"
    by (simp add: example_slots_db_def coincides_def)
  have "?taken \<notin> set ?r"
    using getAvailableSlots_sound [of ?taken example_slots_db "''2024-05-01''" "''e1''"
        "Some ''2024-05-02''" None] a c
    by blast
  moreover have "\<lparr> slot_date = ''2024-05-02'', slot_time = ''08:30:00'',
      slot_professional_id = ''p1'', slot_professional_name = ''Ana'' \<rparr> \<in> set ?r"
    by code_simp
  moreover have "length ?r = 19"
    by code_simp
  ultimately show ?thesis by simp
qed

section \<open>Properties of the conversation context store\<close>

lemma obj_get_obj_set:
  "obj_get (obj_set obj k v) k' = (if k' = k then v else obj_get obj k')"
  by (induction obj) auto



lemma obj_get_applyColumns:
  "obj_get (applyColumns row cols) k =
     (case map_of (rev cols) k of Some v \<Rightarrow> v | None \<Rightarrow> obj_get row k)"
  unfolding applyColumns_def
  by (induction cols arbitrary: row) (auto simp: obj_get_obj_set split: option.splits)


lemma update_success:
  assumes "updateConversationContext env tbl e p updates uuid now = (True, tbl')"
  shows "\<exists>cd. prepareContextData (obj_get (currentRow tbl e p uuid now) ''context_data'')
                 updates now = Some cd
              \<and> tbl' = tbl((e, p) \<mapsto>
                    applyColumns (currentRow tbl e p uuid now) (updateData cd updates now))"
  using assms
  unfolding updateConversationContext_def getConversationContext_def
    createConversationContext_def currentRow_def
  by (auto split: if_splits option.splits)

lemma update_failure:
  assumes "updateConversationContext env tbl e p updates uuid now = (False, tbl')"
  shows "tbl' = tbl \<or> (tbl (e, p) = None \<and> tbl' = tbl((e, p) \<mapsto> newContext e p None uuid now))"
  using assms
  unfolding updateConversationContext_def getConversationContext_def
    createConversationContext_def
  by (auto split: if_splits option.splits)

























section \<open>Properties of the intent classifier\<close>

lemma countKeyword_foldl:
  "foldl (countKeyword t i) scores ks
     = scores(i := scores i + length (filter (js_includes t) ks))"
  by (induction ks arbitrary: scores) (auto simp: countKeyword_def fun_eq_iff)

lemma keywordScores_hits: "keywordScores t = hits t"
proof
  fix i
  show "keywordScores t i = hits t i"
    unfolding keywordScores_def hits_def keywords_of_def INTENT_KEYWORDS_def countIntent_def
    by (cases i) (simp_all add: countKeyword_foldl)
qed

lemma fold_max_Max: "fold max (map f xs) (m::nat) = Max (insert m (f ` set xs))"
proof -
  have "fold max (map f xs) m = Max (set (m # map f xs))"
    by (rule Max.set_eq_fold [symmetric])
  then show ?thesis by simp
qed

lemma fold_max_ge: "(m::nat) \<le> fold max (map f xs) m"
  unfolding fold_max_Max by simp

lemma fold_max_gt_iff: "(m::nat) < fold max (map f xs) m \<longleftrightarrow> (\<exists>x \<in> set xs. m < f x)"
  unfolding fold_max_Max by (subst Max_gr_iff) auto

lemma fold_max_upper: "x \<in> set xs \<Longrightarrow> f x \<le> fold max (map f xs) (m::nat)"
  unfolding fold_max_Max by simp

lemma pickHigher_apply:
  "pickHigher f (m, d) x = (if m < f x then (f x, x) else (m, d))"
  by (simp add: pickHigher_def)

text \<open>The loop with the strict comparison returns the first element of highest score.\<close>

lemma pickHigher_foldl:
  "foldl (pickHigher f) (m, d) xs =
     (if \<exists>x \<in> set xs. m < f x
      then (fold max (map f xs) m, hd (filter (\<lambda>x. f x = fold max (map f xs) m) xs))
      else (m, d))"
proof (induction xs arbitrary: m d)
  case Nil
  then show ?case by simp
next
  case (Cons x xs)
  show ?case
  proof (cases "m < f x")
    case True
    then have mx: "max (f x) m = f x" by simp
    show ?thesis
    proof (cases "\<exists>y \<in> set xs. f x < f y")
      case ex: True
      then have "f x < fold max (map f xs) (f x)" by (simp add: fold_max_gt_iff)
      with True ex show ?thesis
        by (simp add: pickHigher_apply Cons.IH mx)
    next
      case no: False
      then have "\<not> f x < fold max (map f xs) (f x)" by (simp add: fold_max_gt_iff)
      with fold_max_ge [of "f x" f xs] have "fold max (map f xs) (f x) = f x" by simp
      with True no show ?thesis
        by (simp add: pickHigher_apply Cons.IH mx)
    qed
  next
    case False
    then have mx: "max (f x) m = m" by simp
    show ?thesis
    proof (cases "\<exists>y \<in> set xs. m < f y")
      case ex: True
      then have "m < fold max (map f xs) m" by (simp add: fold_max_gt_iff)
      with False have "f x \<noteq> fold max (map f xs) m" by simp
      with False ex show ?thesis
        by (simp add: pickHigher_apply Cons.IH mx)
    next
      case no: False
      with False show ?thesis
        by (simp add: pickHigher_apply Cons.IH mx)
    qed
  qed
qed

text \<open>
  Claim C3. The keyword stage depends on the message through its case-folded text
  only, and on that text it is the function the specification describes: the score of
  an intent is the number of its keywords occurring in the text, the first declared
  intent of highest score wins, the confidence is \<open>min(0.8, hits * 0.3)\<close>, and with no
  hit at all the result is \<open>other\<close> at confidence 0.1.
\<close>

theorem detectIntentByKeywords_spec:
  "detectIntentByKeywords toLowerCase message = spec_keyword_stage (toLowerCase message)"
proof -
  let ?t = "toLowerCase message"
  have gt: "(\<exists>x \<in> set score_order. 0 < hits ?t x) \<longleftrightarrow> 0 < highest_hits ?t"
    unfolding highest_hits_def by (simp only: fold_max_gt_iff)
  show ?thesis
  proof (cases "0 < highest_hits ?t")
    case True
    with gt have "\<exists>x \<in> set score_order. 0 < hits ?t x" by simp
    then have "foldl (pickHigher (hits ?t)) (0, other) score_order
                 = (highest_hits ?t,
                    hd (filter (\<lambda>x. hits ?t x = highest_hits ?t) score_order))"
      unfolding highest_hits_def by (simp only: pickHigher_foldl if_True)
    with True show ?thesis
      unfolding detectIntentByKeywords_def spec_keyword_stage_def keywordScores_hits Let_def
      by (simp add: min.commute)
  next
    case False
    with gt have "\<not> (\<exists>x \<in> set score_order. 0 < hits ?t x)" by simp
    then have "foldl (pickHigher (hits ?t)) (0, other) score_order = (0, other)"
      by (simp only: pickHigher_foldl if_False)
    with False show ?thesis
      unfolding detectIntentByKeywords_def spec_keyword_stage_def keywordScores_hits Let_def
      by simp
  qed
qed

lemma keyword_stage_examples:
  "detectIntentByKeywords ascii_lower ''Quero AGENDAR uma consulta hoje''
     = \<lparr> kw_intent = scheduling, kw_confidence = 0.8 \<rparr>"
  "detectIntentByKeywords ascii_lower ''perfeito''
     = \<lparr> kw_intent = confirmation, kw_confidence = 0.3 \<rparr>"
  "detectIntentByKeywords ascii_lower ''2''
     = \<lparr> kw_intent = other, kw_confidence = 0.1 \<rparr>"
  by code_simp+



section \<open>Properties of the template engine\<close>

lemma getSubstitution_plain:
  "CHR ''$'' \<notin> set rep \<Longrightarrow> getSubstitution matched preceding after rep = rep"
  by (induction matched preceding after rep rule: getSubstitution.induct) auto

lemma plainKey_braceFree: "plainKey key \<Longrightarrow> braceFree key"
  unfolding plainKey_def braceFree_def list_all_iff wordChar_def Let_def
  by (auto simp: of_char_eq_iff [symmetric, where ?'a = nat] simp del: of_char_eq_iff)

lemma replaceFrom_skip:
  "CHR ''{'' \<notin> set s \<Longrightarrow>
   replaceFrom (placeholder key) rep preceding (s @ rest)
     = s @ replaceFrom (placeholder key) rep (preceding @ s) rest"
  by (induction s arbitrary: preceding) (auto simp: placeholder_def)

lemma replaceFrom_hit:
  "replaceFrom (placeholder key) rep preceding (placeholder key @ rest)
     = getSubstitution (placeholder key) preceding rest rep
       @ replaceFrom (placeholder key) rep (preceding @ placeholder key) rest"
proof -
  obtain c cs where p: "placeholder key = c # cs" by (simp add: placeholder_def)
  have "replaceFrom (c # cs) rep preceding ((c # cs) @ rest)
          = getSubstitution (c # cs) preceding rest rep
            @ replaceFrom (c # cs) rep (preceding @ c # cs) rest"
    by simp
  then show ?thesis by (simp only: p)
qed

lemma closing_brace_unique:
  "CHR ''}'' \<notin> set k \<Longrightarrow> CHR ''}'' \<notin> set n \<Longrightarrow> k @ CHR ''}'' # zs = n @ CHR ''}'' # ys
   \<Longrightarrow> k = n"
proof (induction k arbitrary: n)
  case Nil
  then show ?case by (cases n) auto
next
  case (Cons a k)
  then show ?case by (cases n) auto
qed

lemma other_placeholder_no_match:
  assumes "braceFree key" "braceFree name" "name \<noteq> key"
  shows "\<not> prefix (placeholder key) (placeholder name @ rest)"
proof
  assume "prefix (placeholder key) (placeholder name @ rest)"
  then obtain zs where "placeholder name @ rest = placeholder key @ zs"
    unfolding prefix_def by blast
  then have "key @ CHR ''}'' # zs = name @ CHR ''}'' # rest"
    by (simp add: placeholder_def)
  with assms(1,2) have "key = name"
    unfolding braceFree_def by (blast dest: closing_brace_unique)
  with assms(3) show False by simp
qed

lemma replaceFrom_miss:
  assumes "braceFree key" "braceFree name" "name \<noteq> key"
  shows "replaceFrom (placeholder key) rep preceding (placeholder name @ rest)
           = placeholder name
             @ replaceFrom (placeholder key) rep (preceding @ placeholder name) rest"
proof -
  let ?p = "placeholder key"
  have "replaceFrom ?p rep preceding (CHR ''{'' # (name @ ''}'') @ rest)
          = CHR ''{'' # replaceFrom ?p rep (preceding @ ''{'') ((name @ ''}'') @ rest)"
    using other_placeholder_no_match [OF assms, of rest]
    by (simp add: placeholder_def)
  also have "replaceFrom ?p rep (preceding @ ''{'') ((name @ ''}'') @ rest)
          = (name @ ''}'') @ replaceFrom ?p rep ((preceding @ ''{'') @ name @ ''}'') rest"
    using assms(2) by (intro replaceFrom_skip) (simp add: braceFree_def)
  finally show ?thesis by (simp add: placeholder_def)
qed

text \<open>One pass of the loop on a well-formed template fills the placeholders of its key.\<close>

lemma replaceFrom_template:
  assumes "braceFree key" "CHR ''$'' \<notin> set val" "list_all wellFormed segs"
  shows "replaceFrom (placeholder key) val preceding (templateText segs)
           = templateText (map (fillKey key val) segs)"
  using assms(3)
proof (induction segs arbitrary: preceding)
  case Nil
  then show ?case by (simp add: templateText_def)
next
  case (Cons seg segs)
  then have ih: "\<And>pre. replaceFrom (placeholder key) val pre (templateText segs)
                   = templateText (map (fillKey key val) segs)"
    by simp
  show ?case
  proof (cases seg)
    case (Lit s)
    with Cons.prems have "CHR ''{'' \<notin> set s" by (simp add: braceFree_def)
    from replaceFrom_skip [OF this] Lit ih show ?thesis
      by (simp add: templateText_def)
  next
    case (Hole name)
    with Cons.prems have n: "braceFree name" by simp
    show ?thesis
    proof (cases "name = key")
      case True
      with Hole ih show ?thesis
        by (simp add: templateText_def replaceFrom_hit getSubstitution_plain [OF assms(2)])
    next
      case False
      from replaceFrom_miss [OF assms(1) n False] Hole False ih show ?thesis
        by (simp add: templateText_def)
    qed
  qed
qed

lemma wellFormed_fillKey:
  "braceFree val \<Longrightarrow> list_all wellFormed segs \<Longrightarrow> list_all wellFormed (map (fillKey key val) segs)"
  by (induction segs) (auto split: segment.splits elim: wellFormed.elims)

lemma fillKey_fillSegment:
  "fillSegment variables (fillKey key val seg) = fillSegment ((key, val) # variables) seg"
  by (cases seg) (auto split: option.splits)

lemma renderContent_template:
  assumes "list_all (\<lambda>(key, val). plainKey key \<and> plainValue val) variables"
    and "list_all wellFormed segs"
  shows "renderContent (templateText segs) variables
           = templateText (map (fillSegment variables) segs)"
  using assms
proof (induction variables arbitrary: segs)
  case Nil
  have "fillSegment [] seg = seg" for seg
    by (cases seg) simp_all
  then have "map (fillSegment []) segs = segs"
    by (simp add: map_idI)
  then show ?case by (simp add: renderContent_def)
next
  case (Cons kv variables)
  obtain key val where kv: "kv = (key, val)" by (cases kv)
  with Cons.prems have k: "braceFree key" and v: "braceFree val" "CHR ''$'' \<notin> set val"
    by (simp_all add: plainKey_braceFree plainValue_def)
  have "renderContent (templateText segs) (kv # variables)
          = renderContent (templateText (map (fillKey key val) segs)) variables"
    unfolding renderContent_def kv
    by (simp add: substitute_def replaceFrom_template [OF k v(2) Cons.prems(2)])
  also have "\<dots> = templateText (map (fillSegment variables) (map (fillKey key val) segs))"
    using Cons.prems wellFormed_fillKey [OF v(1) Cons.prems(2)]
    by (intro Cons.IH) simp_all
  also have "\<dots> = templateText (map (fillSegment (kv # variables)) segs)"
    by (simp add: kv fillKey_fillSegment comp_def)
  finally show ?case .
qed

lemma fillSegment_idem:
  "fillSegment variables (fillSegment variables seg) = fillSegment variables seg"
  by (cases seg) (auto split: option.splits)

lemma wellFormed_fillSegment:
  assumes "list_all (\<lambda>(key, val). plainKey key \<and> plainValue val) variables"
    and "wellFormed seg"
  shows "wellFormed (fillSegment variables seg)"
proof (cases seg)
  case (Lit s)
  with assms(2) show ?thesis by simp
next
  case (Hole name)
  show ?thesis
  proof (cases "map_of variables name")
    case None
    with Hole assms(2) show ?thesis by simp
  next
    case (Some v)
    then have "(name, v) \<in> set variables" by (rule map_of_SomeD)
    with assms(1) have "plainValue v" by (auto simp: list_all_iff)
    with Hole Some show ?thesis by (simp add: plainValue_def)
  qed
qed

text \<open>
  Claim C5, as stated, fails: a value may itself contain a placeholder of the map, and
  the second rendering then substitutes inside the output of the first.
\<close>

theorem render_not_idempotent:
  "renderContent ''{a}'' [(''a'', ''{a}x'')] = ''{a}x''
   \<and> renderContent (renderContent ''{a}'' [(''a'', ''{a}x'')]) [(''a'', ''{a}x'')] = ''{a}xx''"
  by code_simp

text \<open>
  Claim C5, amended. For a template whose braces occur only as placeholders \<open>{name}\<close>
  with brace-free names, and variables whose keys are plain names and whose values
  contain neither a brace nor a dollar sign: rendering replaces every placeholder whose
  name is a key by the value of that key and leaves every other segment, the
  placeholders without a matching key among them, as it is; and rendering the output
  again with the same variables gives the same string.
\<close>

theorem render_fills_and_is_idempotent:
  assumes "list_all (\<lambda>(key, val). plainKey key \<and> plainValue val) variables"
    and "list_all wellFormed segs"
  shows "renderContent (templateText segs) variables
           = templateText (map (fillSegment variables) segs)
         \<and> renderContent (renderContent (templateText segs) variables) variables
           = renderContent (templateText segs) variables"
proof -
  have wf: "list_all wellFormed (map (fillSegment variables) segs)"
    using assms wellFormed_fillSegment [OF assms(1)] by (simp add: list_all_iff)
  have first: "renderContent (templateText segs) variables
                 = templateText (map (fillSegment variables) segs)"
    by (rule renderContent_template [OF assms])
  have "renderContent (templateText (map (fillSegment variables) segs)) variables
          = templateText (map (fillSegment variables) (map (fillSegment variables) segs))"
    by (rule renderContent_template [OF assms(1) wf])
  also have "\<dots> = templateText (map (fillSegment variables) segs)"
    by (simp add: fillSegment_idem comp_def)
  finally show ?thesis using first by simp
qed

theorem render_fills_and_is_idempotent_witness:
  "templateText [Lit ''Hi '', Hole ''a'', Lit '' '', Hole ''b''] = ''Hi {a} {b}''
   \<and> renderContent ''Hi {a} {b}'' [(''a'', ''X'')] = ''Hi X {b}''
   \<and> renderContent (renderContent ''Hi {a} {b}'' [(''a'', ''X'')]) [(''a'', ''X'')]
      = renderContent ''Hi {a} {b}'' [(''a'', ''X'')]"
proof -
  let ?segs = "[Lit ''Hi '', Hole ''a'', Lit '' '', Hole ''b'']"
  have t: "templateText ?segs = ''Hi {a} {b}''"
    by (simp add: templateText_def placeholder_def)
  have vars: "list_all (\<lambda>(key, val). plainKey key \<and> plainValue val) [(''a'', ''X'')]"
    by (simp add: plainKey_def plainValue_def braceFree_def wordChar_def digitChar_def)
  have wf: "list_all wellFormed ?segs"
    by (simp add: braceFree_def)
  have f: "templateText (map (fillSegment [(''a'', ''X'')]) ?segs) = ''Hi X {b}''"
    by (simp add: templateText_def placeholder_def)
  note r = render_fills_and_is_idempotent [OF vars wf, unfolded f t]
  from r t show ?thesis by blast
qed

section \<open>Properties of the scheduled delivery sweep\<close>

lemma row_of_updateRows:
  assumes "\<And>row. sm_id (f row) = sm_id row"
  shows "row_of i (updateRows j f table)
           = (if i = j then map_option f (row_of i table) else row_of i table)"
  unfolding row_of_def updateRows_def
  by (induction table) (auto simp: assms)

lemma sm_id_newValues: "sm_id (newValues env message row) = sm_id row"
  unfolding newValues_def by (simp split: send_outcome.splits)

lemma row_of_send:
  "row_of i (sendScheduledMessage env table x)
     = (if i = sm_id x \<and> \<not> writeFails env x
        then map_option (newValues env x) (row_of i table) else row_of i table)"
  unfolding sendScheduledMessage_def
  by (simp add: row_of_updateRows [of "newValues env x", OF sm_id_newValues])

lemma row_of_untouched:
  "i \<notin> sm_id ` set xs \<Longrightarrow> row_of i (foldl (sendScheduledMessage env) table xs) = row_of i table"
  by (induction xs arbitrary: table) (auto simp: row_of_send)

lemma row_of_processed:
  assumes "distinct (map sm_id xs)" "x \<in> set xs" "\<not> writeFails env x"
  shows "row_of (sm_id x) (foldl (sendScheduledMessage env) table xs)
           = map_option (newValues env x) (row_of (sm_id x) table)"
  using assms(1,2)
proof (induction xs arbitrary: table)
  case Nil
  then show ?case by simp
next
  case (Cons y ys)
  show ?case
  proof (cases "y = x")
    case True
    with Cons.prems have "sm_id x \<notin> sm_id ` set ys" by auto
    with True assms(3) show ?thesis
      by (simp add: row_of_untouched row_of_send)
  next
    case False
    with Cons.prems have x: "x \<in> set ys" and d: "distinct (map sm_id ys)"
      by auto
    from Cons.prems have "sm_id y \<notin> sm_id ` set ys" by simp
    with x have ne: "sm_id x \<noteq> sm_id y" by (metis imageI)
    from Cons.IH [OF d x] ne show ?thesis
      by (simp add: row_of_send)
  qed
qed

lemma row_of_member:
  "distinct (map sm_id table) \<Longrightarrow> m \<in> set table \<Longrightarrow> row_of (sm_id m) table = Some m"
  unfolding row_of_def by (induction table) auto

lemma set_pendingMessages:
  "set (pendingMessages now table)
     = {m \<in> set table. sm_status m = status_pending \<and> sm_scheduled_for m \<le> now}"
  unfolding pendingMessages_def by auto

lemma distinct_pendingMessages:
  "distinct (map sm_id table) \<Longrightarrow> distinct (map sm_id (pendingMessages now table))"
proof -
  assume d: "distinct (map sm_id table)"
  let ?due = "filter (\<lambda>m. sm_status m = status_pending \<and> sm_scheduled_for m \<le> now) table"
  from d have "distinct (map sm_id ?due)" by (rule distinct_map_filter)
  moreover have "mset (map sm_id (pendingMessages now table)) = mset (map sm_id ?due)"
    unfolding pendingMessages_def by simp
  ultimately show ?thesis by (metis mset_eq_imp_distinct_iff)
qed

lemma sorted_pendingMessages:
  "sorted (map sm_scheduled_for (pendingMessages now table))"
  unfolding pendingMessages_def by simp

text \<open>
  Claim C4, as stated, fails: the write of the new status can come back with an error,
  which \<open>sendScheduledMessage\<close> only logs. The message was sent, its row is still
  pending, and the next sweep selects it again.
\<close>

theorem sent_message_stays_pending:
  "sendResult (example_sweep_env True) (example_message ''m1'' 50 status_pending) = SendOk
   \<and> row_of ''m1'' (processPendingMessages (example_sweep_env True) 60 example_queue)
      = Some (example_message ''m1'' 50 status_pending)
   \<and> example_message ''m1'' 50 status_pending
      \<in> set (pendingMessages 65
               (processPendingMessages (example_sweep_env True) 60 example_queue))"
  by code_simp

lemma ids_send: "map sm_id (sendScheduledMessage env table x) = map sm_id table"
  unfolding sendScheduledMessage_def updateRows_def
  by (simp add: sm_id_newValues comp_def cong: map_cong)

lemma ids_sweep: "map sm_id (processPendingMessages env now table) = map sm_id table"
proof -
  have "map sm_id (foldl (sendScheduledMessage env) t xs) = map sm_id t" for t xs
    by (induction xs arbitrary: t) (simp_all add: ids_send)
  then show ?thesis unfolding processPendingMessages_def by simp
qed

lemma row_of_Some_member: "row_of i table = Some r \<Longrightarrow> r \<in> set table"
  unfolding row_of_def by (auto simp: find_Some_iff)

lemma settled_row_kept:
  assumes d: "distinct (map sm_id table)" and m: "m \<in> set table"
    and s: "sm_status m \<noteq> status_pending"
  shows "m \<notin> set (pendingMessages now table)"
    and "row_of (sm_id m) (processPendingMessages env now table) = Some m"
proof -
  show "m \<notin> set (pendingMessages now table)"
    using s by (simp add: set_pendingMessages)
  have "sm_id m \<notin> sm_id ` set (pendingMessages now table)"
  proof
    assume "sm_id m \<in> sm_id ` set (pendingMessages now table)"
    then obtain x where x: "x \<in> set table" "sm_status x = status_pending" "sm_id x = sm_id m"
      by (auto simp: set_pendingMessages)
    from d x(1) m x(3) have "x = m" by (meson distinct_map inj_onD)
    with x(2) s show False by simp
  qed
  then show "row_of (sm_id m) (processPendingMessages env now table) = Some m"
    unfolding processPendingMessages_def
    by (simp add: row_of_untouched row_of_member [OF d m])
qed

lemma due_row_settled:
  assumes d: "distinct (map sm_id table)" and m: "m \<in> set table"
    and due: "sm_status m = status_pending" "sm_scheduled_for m \<le> now"
    and ok: "\<not> queryError env" "\<not> writeFails env m"
  shows "row_of (sm_id m) (processPendingMessages env now table) = Some (newValues env m m)"
proof -
  from m due have "m \<in> set (pendingMessages now table)"
    by (simp add: set_pendingMessages)
  from row_of_processed [OF distinct_pendingMessages [OF d] this ok(2)] ok(1)
  show ?thesis
    unfolding processPendingMessages_def by (simp add: row_of_member [OF d m])
qed

lemma newValues_status:
  "sm_status (newValues env m m) = (if sendResult env m = SendOk then status_sent else status_failed)"
  "sendResult env m = SendOk \<Longrightarrow> sm_sent_at (newValues env m m) = Some (clock env m)"
  unfolding newValues_def by (simp_all split: send_outcome.splits)

text \<open>
  Claim C4, amended. Let the rows have distinct ids. The sweep hands the pending rows
  due at \<open>now\<close> to the sender in ascending order of their fire-at time. For such a row,
  when the select and the write of the row's new status succeed, the row afterwards is
  \<open>sent\<close> with a sent timestamp if the send reported success, and \<open>failed\<close> if it
  reported failure or threw; and no later sweep, whatever its collaborators do, changes
  that row. A row that is \<open>sent\<close> or \<open>failed\<close> is not selected and is left as it is.
\<close>

theorem due_message_settled:
  assumes "distinct (map sm_id table)" and "m \<in> set table"
  shows "(sm_status m = status_pending \<and> sm_scheduled_for m \<le> now
            \<and> \<not> queryError env \<and> \<not> writeFails env m
          \<longrightarrow> row_of (sm_id m) (processPendingMessages env now table)
                = Some (newValues env m m)
              \<and> sm_status (newValues env m m)
                = (if sendResult env m = SendOk then status_sent else status_failed)
              \<and> (sendResult env m = SendOk
                   \<longrightarrow> sm_sent_at (newValues env m m) = Some (clock env m))
              \<and> newValues env m m
                \<notin> set (pendingMessages now' (processPendingMessages env now table))
              \<and> row_of (sm_id m)
                  (processPendingMessages env' now' (processPendingMessages env now table))
                = Some (newValues env m m))
         \<and> (sm_status m \<noteq> status_pending
          \<longrightarrow> m \<notin> set (pendingMessages now table)
              \<and> row_of (sm_id m) (processPendingMessages env now table) = Some m)
         \<and> sorted (map sm_scheduled_for (pendingMessages now table))"
proof (intro conjI impI)
  assume a: "sm_status m = status_pending \<and> sm_scheduled_for m \<le> now
             \<and> \<not> queryError env \<and> \<not> writeFails env m"
  let ?t = "processPendingMessages env now table"
  let ?r = "newValues env m m"
  from a show row: "row_of (sm_id m) ?t = Some ?r"
    by (simp add: due_row_settled [OF assms])
  show st: "sm_status ?r = (if sendResult env m = SendOk then status_sent else status_failed)"
    by (rule newValues_status)
  have d': "distinct (map sm_id ?t)" using assms(1) by (simp add: ids_sweep)
  have r: "?r \<in> set ?t" using row by (rule row_of_Some_member)
  have np: "sm_status ?r \<noteq> status_pending" using st by simp
  from settled_row_kept(1) [OF d' r np]
  show "?r \<notin> set (pendingMessages now' ?t)" .
  from settled_row_kept(2) [OF d' r np]
  show "row_of (sm_id m) (processPendingMessages env' now' ?t) = Some ?r"
    by (simp add: sm_id_newValues)
next
  assume "sendResult env m = SendOk"
  then show "sm_sent_at (newValues env m m) = Some (clock env m)"
    by (rule newValues_status)
next
  assume s: "sm_status m \<noteq> status_pending"
  from settled_row_kept [OF assms s]
  show "m \<notin> set (pendingMessages now table)"
    and "row_of (sm_id m) (processPendingMessages env now table) = Some m"
    by simp_all
next
  show "sorted (map sm_scheduled_for (pendingMessages now table))"
    by (rule sorted_pendingMessages)
qed

theorem due_message_settled_witness:
  "row_of ''m1'' (processPendingMessages (example_sweep_env False) 60 example_queue)
     = Some ((example_message ''m1'' 50 status_sent)\<lparr> sm_sent_at := Some 61 \<rparr>)
   \<and> row_of ''m1''
        (processPendingMessages (example_sweep_env True) 70
           (processPendingMessages (example_sweep_env False) 60 example_queue))
     = Some ((example_message ''m1'' 50 status_sent)\<lparr> sm_sent_at := Some 61 \<rparr>)
   \<and> row_of ''m2'' (processPendingMessages (example_sweep_env False) 60 example_queue)
     = Some (example_message ''m2'' 20 status_failed)
   \<and> row_of ''m3'' (processPendingMessages (example_sweep_env False) 60 example_queue)
     = Some (example_message ''m3'' 10 status_failed)
   \<and> map sm_id (pendingMessages 60 example_queue) = [''m2'', ''m1'']"
proof -
  let ?env = "example_sweep_env False"
  have d: "distinct (map sm_id example_queue)"
    by (simp add: example_queue_def example_message_def)
  have m1: "example_message ''m1'' 50 status_pending \<in> set example_queue"
    and m2: "example_message ''m2'' 20 status_pending \<in> set example_queue"
    and m3: "example_message ''m3'' 10 status_failed \<in> set example_queue"
    by (simp_all add: example_queue_def)
  have v1: "newValues ?env (example_message ''m1'' 50 status_pending)
              (example_message ''m1'' 50 status_pending)
            = (example_message ''m1'' 50 status_sent)\<lparr> sm_sent_at := Some 61 \<rparr>"
    by (simp add: newValues_def example_sweep_env_def example_message_def)
  have v2: "newValues ?env (example_message ''m2'' 20 status_pending)
              (example_message ''m2'' 20 status_pending)
            = example_message ''m2'' 20 status_failed"
    by (simp add: newValues_def example_sweep_env_def example_message_def)
  have env: "\<not> queryError ?env" "\<And>m. \<not> writeFails ?env m"
    by (simp_all add: example_sweep_env_def)
  have ids: "sm_id (example_message ''m1'' 50 status_pending) = ''m1''"
    "sm_id (example_message ''m2'' 20 status_pending) = ''m2''"
    "sm_id (example_message ''m3'' 10 status_failed) = ''m3''"
    "sm_status (example_message ''m1'' 50 status_pending) = status_pending"
    "sm_status (example_message ''m2'' 20 status_pending) = status_pending"
    "sm_status (example_message ''m3'' 10 status_failed) = status_failed"
    "sm_scheduled_for (example_message ''m1'' 50 status_pending) = 50"
    "sm_scheduled_for (example_message ''m2'' 20 status_pending) = 20"
    by (simp_all add: example_message_def)
  from due_message_settled [OF d m1, where now = 60 and env = ?env and now' = 70
      and env' = "example_sweep_env True"] env
  have a: "row_of ''m1'' (processPendingMessages ?env 60 example_queue)
             = Some ((example_message ''m1'' 50 status_sent)\<lparr> sm_sent_at := Some 61 \<rparr>)"
    and b: "row_of ''m1''
              (processPendingMessages (example_sweep_env True) 70
                 (processPendingMessages ?env 60 example_queue))
             = Some ((example_message ''m1'' 50 status_sent)\<lparr> sm_sent_at := Some 61 \<rparr>)"
    by (simp_all add: ids v1)
  from due_message_settled [OF d m2, where now = 60 and env = ?env] env
  have c: "row_of ''m2'' (processPendingMessages ?env 60 example_queue)
             = Some (example_message ''m2'' 20 status_failed)"
    by (simp add: ids v2)
  from due_message_settled [OF d m3, where now = 60 and env = ?env]
  have e: "row_of ''m3'' (processPendingMessages ?env 60 example_queue)
             = Some (example_message ''m3'' 10 status_failed)"
    by (simp add: ids)
  have f: "map sm_id (pendingMessages 60 example_queue) = [''m2'', ''m1'']"
    by code_simp
  from a b c e f show ?thesis by blast
qed

section \<open>Properties of the orchestrator\<close>



lemma chooseCancellation_valid:
  assumes arr: "obj_get ctx ''cancellableAppointments'' = JArr candidates"
    and choice: "parseInt (trim (te_lower env (pm_messageContent message))) = Some choice"
    and range: "1 \<le> choice" "choice \<le> int (length candidates)"
    and ident: "js_member (candidates ! nat (choice - 1)) ''id'' = Some appointmentId"
  shows "chooseCancellation env w message ctx =
           (let result = cancelAppointment (te_cancel_error env) (appointment_rows w)
                           appointmentId;
                w2 = w\<lparr> appointment_rows := snd result,
                        contexts :=
                          snd (updateConversationContext (te_flow_update env) (contexts w)
                                 (js_toString (obj_get ctx ''establishment_id''))
                                 (pm_clientPhone message) clearPatch
                                 (te_uuid env) (te_now env)) \<rparr>
            in if fst result
               then (if namesReadable (candidates ! nat (choice - 1))
                     then (CancelledText (candidates ! nat (choice - 1)), w2)
                     else (CancelApology, w2))
               else (CancelErrorText, w2))"
proof -
  from range have "0 \<le> choice - 1" and "nat (choice - 1) < length candidates"
    by linarith+
  then have el: "js_element (JArr candidates) (choice - 1) = candidates ! nat (choice - 1)"
    by simp
  from range have ok: "\<not> (choice < 1 \<or> exceeds choice (js_length (JArr candidates)))"
    by simp
  show ?thesis
    unfolding chooseCancellation_def arr choice option.case el Let_def
    using ok ident by simp
qed

text \<open>
  What the choice branch of the handler does on a context that shows a pending choice:
  a text that is no number, or a number outside the candidates, is answered by the
  re-prompt and changes nothing; a number inside the candidates cancels, when the
  cancellation succeeds, exactly the appointment with the id of that candidate.
\<close>

lemma invalid_choice_reprompts:
  assumes "truthy (obj_get ctx ''awaitingCancellation'')"
    and "obj_get ctx ''cancellableAppointments'' = JArr candidates"
    and "case parseInt (trim (te_lower env (pm_messageContent message))) of
           None \<Rightarrow> True | Some n \<Rightarrow> n < 1 \<or> int (length candidates) < n"
  shows "handleCancellationIntent env w message ctx = (Reprompt, w)"
  using assms unfolding handleCancellationIntent_def chooseCancellation_def
  by (auto split: option.splits)

lemma valid_choice_cancels:
  assumes "truthy (obj_get ctx ''awaitingCancellation'')"
    and "obj_get ctx ''cancellableAppointments'' = JArr candidates"
    and "parseInt (trim (te_lower env (pm_messageContent message))) = Some choice"
    and "1 \<le> choice" and "choice \<le> int (length candidates)"
    and "js_member (candidates ! nat (choice - 1)) ''id'' = Some (JStr i)"
    and "\<not> te_cancel_error env"
  shows "appointment_rows (snd (handleCancellationIntent env w message ctx))
           = map (\<lambda>a. if appt_id a = i then a\<lparr> appt_status := cancelled \<rparr> else a)
               (appointment_rows w)"
proof -
  from assms(1,2) have "handleCancellationIntent env w message ctx
                          = chooseCancellation env w message ctx"
    unfolding handleCancellationIntent_def by simp
  then show ?thesis
    unfolding chooseCancellation_valid [OF assms(2-6), of w] Let_def
    using assms(7) by (simp add: cancelAppointment_def)
qed




text \<open>
  The two keys of the pending choice are no columns: an update leaves what a row shows
  of them as it was, so a table whose rows show no pending choice keeps that property
  under every update of the context service; and on a row that shows none, the
  cancellation handler runs the listing flow.
\<close>

lemma flag_is_no_column:
  "obj_get (applyColumns row (updateData cd updates now)) ''awaitingCancellation''
     = obj_get row ''awaitingCancellation''"
  unfolding obj_get_applyColumns updateData_def setIfTruthy_def
  by (simp add: obj_get_obj_set)

lemma rowsHideChoice_upd:
  "rowsHideChoice tbl \<Longrightarrow> obj_get row ''awaitingCancellation'' = JUndefined
   \<Longrightarrow> rowsHideChoice (tbl(key \<mapsto> row))"
  unfolding rowsHideChoice_def by simp

lemma update_keeps_choice_hidden:
  assumes "rowsHideChoice tbl"
  shows "rowsHideChoice (snd (updateConversationContext env tbl e p updates uuid now))"
proof -
  have new: "obj_get (newContext e p None uuid now) ''awaitingCancellation'' = JUndefined"
    by (simp add: newContext_def)
  obtain ok tbl' where r: "updateConversationContext env tbl e p updates uuid now = (ok, tbl')"
    by (cases "updateConversationContext env tbl e p updates uuid now")
  have cur: "obj_get (currentRow tbl e p uuid now) ''awaitingCancellation'' = JUndefined"
    using assms new unfolding currentRow_def rowsHideChoice_def
    by (auto split: option.splits)
  show ?thesis
  proof (cases ok)
    case True
    with r have "updateConversationContext env tbl e p updates uuid now = (True, tbl')"
      by simp
    from update_success [OF this] obtain cd where
      "tbl' = tbl((e, p) \<mapsto>
         applyColumns (currentRow tbl e p uuid now) (updateData cd updates now))"
      by blast
    with assms cur r show ?thesis
      by (simp add: rowsHideChoice_upd flag_is_no_column)
  next
    case False
    with r have "updateConversationContext env tbl e p updates uuid now = (False, tbl')"
      by simp
    from update_failure [OF this] assms new r show ?thesis
      by (auto simp: rowsHideChoice_upd)
  qed
qed

lemma hidden_choice_lists_again:
  assumes "obj_get loaded ''awaitingCancellation'' = JUndefined"
  shows "handleCancellationIntent env w message (obj_set loaded ''intent'' v)
           = startCancellation env w message (obj_set loaded ''intent'' v)"
  unfolding handleCancellationIntent_def using assms by (simp add: obj_get_obj_set)

text \<open>
  Claim C1 on the code. After the listing turn the store holds the flag and the three
  candidates inside \<open>context_data\<close>. On the next turn the text \<open>2\<close> reaches the
  cancellation handler, which looks for the flag and the candidates on the context row
  itself, where no update writes them: it lists the appointments again, cancels none,
  and the stored flag stays set.
\<close>

theorem stored_choice_is_not_read:
  "obj_get (contextData_of (contexts after_listing) example_key) ''awaitingCancellation''
     = JBool True
   \<and> js_length (obj_get (contextData_of (contexts after_listing) example_key)
                  ''cancellableAppointments'') = JNum 3
   \<and> parseInt (trim (ascii_lower ''2'')) = Some 2
   \<and> response (fst (processMessage (example_env says_cancel None False) after_listing
                       (text_message ''2'')))
      = Some (CancelListing
                (map (appointmentObject example_world) (appointment_rows example_world)))
   \<and> appointment_rows (snd (processMessage (example_env says_cancel None False) after_listing
                               (text_message ''2'')))
      = appointment_rows example_world
   \<and> obj_get (contextData_of
                (contexts (snd (processMessage (example_env says_cancel None False)
                                  after_listing (text_message ''2''))))
                example_key) ''awaitingCancellation''
      = JBool True"
  by code_simp

text \<open>
  Claim C2, as stated, fails: when \<open>generateResponse\<close> throws, the turn ends in the
  \<open>catch\<close> of \<open>processMessage\<close>, which returns a failed result and sends nothing.
\<close>

theorem reply_failure_sends_nothing:
  "fst (processMessage (example_env says_greeting None False) after_listing
          (text_message ''bom dia''))
     = failedTurn ''Falha no processamento da mensagem''
   \<and> outbox (snd (processMessage (example_env says_greeting None False) after_listing
                     (text_message ''bom dia'')))
     = outbox after_listing"
  by code_simp

lemma detectIntent_classifier_down:
  assumes "\<And>request. llm request = LlmError"
  shows "fst (detectIntent toLowerCase llm message ctx)
           = kw_intent (detectIntentByKeywords toLowerCase message)"
  unfolding detectIntent_def analyzeIntent_def Let_def by (simp add: assms)

lemma outbox_recordIntent: "outbox (recordIntent env ctx intent w) = outbox w"
  unfolding recordIntent_def by simp

lemma outbox_recordExchange: "outbox (recordExchange env ctx message text w) = outbox w"
  unfolding recordExchange_def by simp

lemma outbox_welcome:
  "outbox (if isNewClient loaded then deliver env phone Welcome w else w)
     = outbox w @ welcomed env phone loaded"
  unfolding deliver_def welcomed_def by simp

text \<open>
  Claim C2, amended. Take an inbound text message that is saved and whose context
  loads, and let its intent resolve to neither scheduling nor cancellation. If the LLM
  call of the classifier fails, the failure is absorbed: the intent is the one of the
  keyword stage and the turn goes on. If the reply generation throws, the turn is
  reported as failed and no reply is sent: the gateway has accepted nothing but the
  welcome of a new client. If the reply generation and the send succeed, the generated
  text is the reply of the turn.
\<close>

theorem reply_failure_reported:
  assumes "\<not> te_save_error env" and "isTextMessage message"
    and "getConversationContext (te_load env) (contexts w) ''default'' (pm_clientPhone message)
           (te_uuid env) (te_now env) = (Some loaded, tbl)"
    and "fst (detectIntent (te_lower env) (te_llm env) (pm_messageContent message)
                (Some loaded)) = intent"
    and "intent \<noteq> scheduling" and "intent \<noteq> cancel"
  shows "((\<forall>request. te_llm env request = LlmError)
            \<longrightarrow> intent = kw_intent (detectIntentByKeywords (te_lower env)
                                      (pm_messageContent message)))
         \<and> ((\<forall>text ctx history. te_generate env text ctx history = None)
            \<longrightarrow> fst (processMessage env w message)
                  = failedTurn ''Falha no processamento da mensagem''
                \<and> outbox (snd (processMessage env w message))
                  = outbox w @ welcomed env (pm_clientPhone message) loaded)
         \<and> ((\<forall>text ctx history. te_generate env text ctx history = Some generated)
             \<and> te_send env (pm_clientPhone message) (AiText generated)
            \<longrightarrow> fst (processMessage env w message)
                  = \<lparr> success = True, response = Some (AiText generated), error = None \<rparr>
                \<and> outbox (snd (processMessage env w message))
                  = outbox w @ welcomed env (pm_clientPhone message) loaded
                    @ [(pm_clientPhone message, AiText generated)])"
proof (intro conjI impI)
  assume "\<forall>request. te_llm env request = LlmError"
  then show "intent = kw_intent (detectIntentByKeywords (te_lower env)
                                   (pm_messageContent message))"
    using assms(4) detectIntent_classifier_down [of "te_llm env"] by simp
next
  assume gen: "\<forall>text ctx history. te_generate env text ctx history = None"
  then have flow: "flowReply env w' message ctx intent = None" for w' ctx
    unfolding flowReply_def using assms(5,6) by simp
  show "fst (processMessage env w message) = failedTurn ''Falha no processamento da mensagem''"
    unfolding processMessage_def Let_def
    using assms(1-4) flow by simp
  show "outbox (snd (processMessage env w message))
          = outbox w @ welcomed env (pm_clientPhone message) loaded"
    unfolding processMessage_def Let_def
    using assms(1-4) flow by (simp add: outbox_recordIntent outbox_welcome)
next
  assume ok: "(\<forall>text ctx history. te_generate env text ctx history = Some generated)
              \<and> te_send env (pm_clientPhone message) (AiText generated)"
  then have flow: "flowReply env w' message ctx intent = Some (AiText generated, w')" for w' ctx
    unfolding flowReply_def using assms(5,6) by simp
  show "fst (processMessage env w message)
          = \<lparr> success = True, response = Some (AiText generated), error = None \<rparr>"
    unfolding processMessage_def Let_def
    using assms(1-4) flow ok by simp
  show "outbox (snd (processMessage env w message))
          = outbox w @ welcomed env (pm_clientPhone message) loaded
            @ [(pm_clientPhone message, AiText generated)]"
    unfolding processMessage_def Let_def
    using assms(1-4) flow ok
    by (simp add: outbox_recordIntent outbox_recordExchange outbox_welcome)
qed

lemma after_listing_row:
  "contexts after_listing example_key \<noteq> None
   \<and> \<not> isNewClient (the (contexts after_listing example_key))"
  by code_simp

theorem reply_failure_reported_witness:
  "fst (detectIntent ascii_lower (\<lambda>request. LlmError) ''bom dia''
          (Some (the (contexts after_listing example_key)))) = greeting
   \<and> fst (processMessage (example_env LlmError None False) after_listing
            (text_message ''bom dia''))
     = failedTurn ''Falha no processamento da mensagem''
   \<and> outbox (snd (processMessage (example_env LlmError None False) after_listing
                     (text_message ''bom dia'')))
     = outbox after_listing
   \<and> outbox (snd (processMessage (example_env LlmError (Some ''Bom dia!'') False)
                     after_listing (text_message ''bom dia'')))
     = outbox after_listing @ [(''5511999990000'', AiText ''Bom dia!'')]"
proof -
  let ?loaded = "the (contexts after_listing example_key)"
  let ?m = "text_message ''bom dia''"
  have istext: "isTextMessage ?m"
    by (simp add: isTextMessage_def text_message_def)
  have phone: "pm_clientPhone ?m = ''5511999990000''" "pm_messageContent ?m = ''bom dia''"
    by (simp_all add: text_message_def)
  have kw: "detectIntentByKeywords ascii_lower ''bom dia''
              = \<lparr> kw_intent = greeting, kw_confidence = 0.3 \<rparr>"
    by code_simp
  have intent: "fst (detectIntent ascii_lower (\<lambda>request. LlmError) ''bom dia'' (Some ?loaded))
                  = greeting"
    by (simp add: detectIntent_classifier_down kw)
  have load: "getConversationContext db_ok (contexts after_listing) ''default''
                ''5511999990000'' ''u1'' ''t1'' = (Some ?loaded, contexts after_listing)"
    using after_listing_row
    by (auto simp: getConversationContext_def db_ok_def example_key_def)
  have new: "welcomed env ''5511999990000'' ?loaded = []" for env
    using after_listing_row by (simp add: welcomed_def)
  let ?down = "example_env LlmError None False"
  let ?up = "example_env LlmError (Some ''Bom dia!'') False"
  have a: "fst (processMessage ?down after_listing ?m)
             = failedTurn ''Falha no processamento da mensagem''
           \<and> outbox (snd (processMessage ?down after_listing ?m)) = outbox after_listing"
    using reply_failure_reported [where env = ?down and w = after_listing and message = ?m
        and loaded = ?loaded and tbl = "contexts after_listing" and intent = greeting]
      istext load intent
    by (simp add: example_env_def phone new)
  have b: "outbox (snd (processMessage ?up after_listing ?m))
             = outbox after_listing @ [(''5511999990000'', AiText ''Bom dia!'')]"
    using reply_failure_reported [where env = ?up and w = after_listing and message = ?m
        and loaded = ?loaded and tbl = "contexts after_listing" and intent = greeting
        and generated = "''Bom dia!''"]
      istext load intent
    by (simp add: example_env_def phone new)
  from a b intent show ?thesis by simp
qed

end
